theory Spec2Isabelle
  imports Main "HOL-Library.Word"
begin

unbundle bit_operations_syntax

section \<open>Python values, exceptions and results\<close>

text \<open>
  The simulator is Python: its integers are unbounded (\<open>int\<close>), its exceptions are
  values of \<open>error\<close>, and an operation that mutates an object returns the object's new
  state next to its result, also when it raises (a Python exception leaves every
  mutation made before it in place).  \<open>External\<close> stands for whatever exception a
  collaborator outside the simulator (transport, disassembler, user hook) raises.
\<close>

datatype error =
    IndexError | KeyError | ValueError | TypeError | AttributeError | OverflowError
  | StructError | AssertionError | External string

type_synonym ('a, 's) outcome = "(error + 'a) \<times> 's"

definition ok :: "'a \<Rightarrow> 's \<Rightarrow> ('a, 's) outcome" where
  "ok v s = (Inr v, s)"

definition raise :: "error \<Rightarrow> 's \<Rightarrow> ('a, 's) outcome" where
  "raise e s = (Inl e, s)"

definition bnd :: "('a, 's) outcome \<Rightarrow> ('a \<Rightarrow> 's \<Rightarrow> ('b, 's) outcome) \<Rightarrow> ('b, 's) outcome" where
  "bnd r f = (case r of (Inl e, s) \<Rightarrow> (Inl e, s) | (Inr v, s) \<Rightarrow> f v s)"

definition raised :: "('a, 's) outcome \<Rightarrow> bool" where
  "raised r = (case fst r of Inl e \<Rightarrow> True | Inr v \<Rightarrow> False)"

subsection \<open>String methods\<close>

text \<open>\<open>find_sep sep s\<close>: the text before and after the first occurrence of \<open>sep\<close> in \<open>s\<close>.\<close>

fun find_sep :: "string \<Rightarrow> string \<Rightarrow> (string \<times> string) option" where
  "find_sep sep [] = (if sep = [] then Some ([], []) else None)"
| "find_sep sep (c # cs) =
     (if take (length sep) (c # cs) = sep then Some ([], drop (length sep) (c # cs))
      else (case find_sep sep cs of None \<Rightarrow> None | Some (a, b) \<Rightarrow> Some (c # a, b)))"

text \<open>\<open>s.split(sep, n)\<close> for a non-empty separator: at most \<open>n\<close> splits, from the left.\<close>

primrec py_splitn :: "string \<Rightarrow> nat \<Rightarrow> string \<Rightarrow> string list" where
  "py_splitn sep 0 s = [s]"
| "py_splitn sep (Suc n) s =
     (case find_sep sep s of None \<Rightarrow> [s] | Some (a, b) \<Rightarrow> a # py_splitn sep n b)"

text \<open>\<open>s.split(sep)\<close>: a string of length \<open>k\<close> holds at most \<open>k\<close> separators.\<close>

definition py_split :: "string \<Rightarrow> string \<Rightarrow> string list" where
  "py_split sep s = py_splitn sep (length s) s"

definition py_strip :: "string \<Rightarrow> string \<Rightarrow> string" where
  "py_strip cs s = rev (dropWhile (\<lambda>c. c \<in> set cs) (rev (dropWhile (\<lambda>c. c \<in> set cs) s)))"

subsection \<open>\<open>int(s, 0)\<close>\<close>

text \<open>
  Python's integer literal syntax with the base taken from the prefix: surrounding
  whitespace, one optional sign, \<open>0x\<close>, \<open>0o\<close> or \<open>0b\<close>, digits with single
  underscores between them (and one allowed right after a prefix), and no leading zero on a
  non-zero decimal.  \<open>None\<close> is \<open>ValueError\<close>.  Operand strings are ASCII, as the
  disassembler prints them, and in an ASCII string the whitespace that \<open>int\<close> skips
  is the tab, the line feed, the vertical tab, the form feed, the carriage return and
  the space.
\<close>

definition digit_val :: "char \<Rightarrow> nat option" where
  "digit_val c =
     (let n = (of_char c :: nat) in
      if 48 \<le> n \<and> n \<le> 57 then Some (n - 48)
      else if 97 \<le> n \<and> n \<le> 122 then Some (n - 87)
      else if 65 \<le> n \<and> n \<le> 90 then Some (n - 55)
      else None)"

text \<open>
  \<open>digits base us acc cs\<close> reads the rest of a digit string: \<open>us\<close> says that the previous
  character was an underscore, \<open>acc\<close> is the value so far.  A string that ends in an
  underscore is refused here, the empty string by the caller.
\<close>

fun digits :: "nat \<Rightarrow> bool \<Rightarrow> nat \<Rightarrow> string \<Rightarrow> nat option" where
  "digits base us acc [] = (if us then None else Some acc)"
| "digits base us acc (c # cs) =
     (if c = CHR ''_'' then (if us then None else digits base True acc cs)
      else (case digit_val c of
              None \<Rightarrow> None
            | Some d \<Rightarrow> if d < base then digits base False (acc * base + d) cs else None))"

definition is_space :: "char \<Rightarrow> bool" where
  "is_space c = ((of_char c :: nat) \<in> {9, 10, 11, 12, 13, 32})"

definition unsigned_literal :: "string \<Rightarrow> nat option" where
  "unsigned_literal s =
     (if take 2 s \<in> {''0x'', ''0X''} \<and> drop 2 s \<noteq> [] then digits 16 False 0 (drop 2 s)
      else if take 2 s \<in> {''0o'', ''0O''} \<and> drop 2 s \<noteq> [] then digits 8 False 0 (drop 2 s)
      else if take 2 s \<in> {''0b'', ''0B''} \<and> drop 2 s \<noteq> [] then digits 2 False 0 (drop 2 s)
      else if s = [] \<or> take 1 s = ''_'' then None
      else (case digits 10 False 0 s of
              None \<Rightarrow> None
            | Some v \<Rightarrow> if take 1 s = ''0'' \<and> v \<noteq> 0 then None else Some v))"

definition py_int0 :: "string \<Rightarrow> int option" where
  "py_int0 s =
     (let t = rev (dropWhile is_space (rev (dropWhile is_space s))) in
      if take 1 t = ''-'' then map_option (\<lambda>n. - int n) (unsigned_literal (drop 1 t))
      else if take 1 t = ''+'' then map_option int (unsigned_literal (drop 1 t))
      else map_option int (unsigned_literal t))"

section \<open>Shift and rotate primitives\<close>

text \<open>
  The module-level functions \<open>lsl\<close>, \<open>lsr\<close>, \<open>asr\<close>, \<open>ror\<close>, \<open>rol\<close> and \<open>rrx\<close> of
  \<^verbatim>\<open>sim_arm_core.py\<close>.  Each returns the pair (result, carry).  Python's \<open><<\<close> is
  \<open>push_bit\<close>, \<open>>>\<close> is \<open>drop_bit\<close>; the amount is in \<open>0..31\<close> after \<open>b &= 31\<close>.
\<close>

definition lsl :: "int \<Rightarrow> int \<Rightarrow> int \<times> int" where
  "lsl a b0 =
     (let b = b0 AND 31 in
      if b \<noteq> 0 then (push_bit (nat b) a, 1 AND drop_bit 32 (push_bit (nat b) a))
      else (a, 0))"

definition lsr :: "int \<Rightarrow> int \<Rightarrow> int \<times> int" where
  "lsr a b0 =
     (let b = b0 AND 31 in
      if b \<noteq> 0 then (drop_bit (nat b) a, 1 AND drop_bit (nat (b - 1)) a)
      else (a, 0))"

definition asr :: "int \<Rightarrow> int \<Rightarrow> int \<times> int" where
  "asr a0 b0 =
     (let b = b0 AND 31 in
      if b \<noteq> 0 then
        (let a = (if a0 AND 0x80000000 \<noteq> 0 then a0 OR 0xffffffff00000000 else a0)
         in (drop_bit (nat b) a, 1 AND drop_bit (nat (b - 1)) a))
      else (a0, 0))"

definition ror :: "int \<Rightarrow> int \<Rightarrow> int \<times> int" where
  "ror a b0 =
     (let b = b0 AND 31 in
      if b \<noteq> 0 then
        (drop_bit (nat b) a OR (push_bit (nat (32 - b)) a AND 0xffffffff),
         1 AND drop_bit (nat (b - 1)) a)
      else (a, 0))"

definition rol :: "int \<Rightarrow> int \<Rightarrow> int \<times> int" where
  "rol a b0 =
     (let b = b0 AND 31 in
      if b \<noteq> 0 then
        (drop_bit (nat (32 - b)) a OR (push_bit (nat b) a AND 0xffffffff),
         1 AND drop_bit (nat (31 - b)) a)
      else (a, 0))"

definition rrx :: "int \<Rightarrow> int \<Rightarrow> int \<Rightarrow> int \<times> int" where
  "rrx a0 b0 carry =
     (let b = b0 AND 31;
          a1 = (a0 AND 0xffffffff) OR push_bit 32 (carry AND 1);
          a2 = drop_bit (nat b) a1 OR push_bit (nat (33 - b)) a1
      in (a2 AND 0xffffffff, 1 AND drop_bit 32 a2))"

section \<open>The run encoder\<close>

text \<open>
  \<open>RunEncoder\<close>: \<open>count\<close> and \<open>key\<close>, the latter \<open>(None, None, None)\<close> (here \<open>None\<close>)
  or a triple (address, pattern, size).  Both methods return the tuple
  \<open>(count, address, pattern, size)\<close>, here a count and the optional triple.
\<close>

record run_encoder =
  count :: int
  key :: "(int \<times> int \<times> int) option"

type_synonym run = "int \<times> (int \<times> int \<times> int) option"

definition RunEncoder :: run_encoder where
  "RunEncoder = \<lparr> count = 0, key = None \<rparr>"

definition rle_flush :: "run_encoder \<Rightarrow> run \<times> run_encoder" where
  "rle_flush e = ((count e, key e), e\<lparr> count := 0, key := None \<rparr>)"

definition rle_write :: "int \<Rightarrow> int \<Rightarrow> int \<Rightarrow> run_encoder \<Rightarrow> run \<times> run_encoder" where
  "rle_write address pattern sz e =
     (if key e = Some (address - count e * sz, pattern, sz)
      then ((0, None), e\<lparr> count := count e + 1 \<rparr>)
      else (let (r, e') = rle_flush e
            in (r, e'\<lparr> key := Some (address, pattern, sz), count := 1 \<rparr>)))"

section \<open>The transport port\<close>

text \<open>
  The remote device is reached through a narrow port.  The simulator cannot see the
  device's state, so the device is its call history together with the answers it will
  give: \<open>answer\<close> for calls that yield an integer (or nothing: pokes and fills, whose
  only observable outcome is success or failure) and \<open>answer_bytes\<close> for calls that yield
  a block of bytes (\<open>read_block\<close>, the console).  An answer \<open>Inl e\<close> is a transport
  failure; it propagates unchanged.
\<close>

datatype dev_call =
    Peek int | PeekByte int | Poke int int | PokeByte int int
  | FillWords int int int | FillBytes int int int
  | ReadBlock int int | Blx int int | ConsoleDiscard | ConsoleRead

record device =
  calls :: "dev_call list"
  answer :: "dev_call list \<Rightarrow> dev_call \<Rightarrow> error + int"
  answer_bytes :: "dev_call list \<Rightarrow> dev_call \<Rightarrow> error + 8 word list"

section \<open>The memory proxy\<close>

subsection \<open>Byte buffers\<close>

text \<open>
  An \<open>io.BytesIO\<close> buffer: its length and its bytes by position (the shadow memory is
  indexed by address, so the positions in use lie far apart).  A read past the end is cut
  short; a non-empty write past the end pads the gap with zero bytes; an empty write does
  nothing.  \<open>seek\<close> takes a position that fits a signed 64-bit integer (the host's
  \<open>ssize_t\<close>) and is not negative: it raises \<open>OverflowError\<close> for the first and
  \<open>ValueError\<close> for the second.  A buffer has whatever length the writes give it:
  running out of host memory is not part of the model.
\<close>

record bytesio =
  bio_len :: nat
  bio_at :: "nat \<Rightarrow> 8 word"

definition BytesIO :: bytesio where
  "BytesIO = \<lparr> bio_len = 0, bio_at = (\<lambda>i. 0) \<rparr>"

definition seek :: "int \<Rightarrow> 's \<Rightarrow> (nat, 's) outcome" where
  "seek pos s =
     (if pos < - (2 ^ 63) \<or> 2 ^ 63 \<le> pos then raise OverflowError s
      else if pos < 0 then raise ValueError s
      else ok (nat pos) s)"

definition bio_read :: "bytesio \<Rightarrow> nat \<Rightarrow> nat \<Rightarrow> 8 word list" where
  "bio_read b pos n = map (bio_at b) [pos ..< min (pos + n) (bio_len b)]"

definition bio_write :: "bytesio \<Rightarrow> nat \<Rightarrow> 8 word list \<Rightarrow> bytesio" where
  "bio_write b pos bs =
     (if bs = [] then b
      else \<lparr> bio_len = max (bio_len b) (pos + length bs),
             bio_at = (\<lambda>i. if pos \<le> i \<and> i < pos + length bs then bs ! (i - pos)
                            else if bio_len b \<le> i then 0
                            else bio_at b i) \<rparr>)"

text \<open>\<open>struct.unpack\<close> and \<open>struct.pack\<close>, little-endian, and \<open>bytes([data])\<close>.\<close>

definition le_int :: "8 word list \<Rightarrow> int" where
  "le_int bs = foldr (\<lambda>b acc. uint b + 256 * acc) bs 0"

definition unpack :: "nat \<Rightarrow> 8 word list \<Rightarrow> error + int" where
  "unpack n bs = (if length bs = n then Inr (le_int bs) else Inl StructError)"

definition le_bytes :: "nat \<Rightarrow> int \<Rightarrow> 8 word list" where
  "le_bytes n v = map (\<lambda>k. word_of_int (drop_bit (8 * k) v)) [0 ..< n]"

definition pack :: "nat \<Rightarrow> int \<Rightarrow> error + 8 word list" where
  "pack n v = (if 0 \<le> v \<and> v < 2 ^ (8 * n) then Inr (le_bytes n v) else Inl StructError)"

definition bytes1 :: "int \<Rightarrow> error + 8 word list" where
  "bytes1 v = (if 0 \<le> v \<and> v < 256 then Inr [word_of_int v] else Inl ValueError)"

subsection \<open>Instruction records and the proxy's state\<close>

text \<open>
  An instruction record as the disassembler yields it (\<open>address\<close>, \<open>op\<close>, \<open>args\<close>),
  with the two attributes \<open>_load_assembly\<close> adds.  The third added attribute, the
  memoised \<open>opfunc\<close>, is not stored: a factory reads nothing but the record and the
  constant register-name table, so compiling again yields the same thunk.
\<close>

record instr =
  address :: int
  next_address :: int
  op :: string
  args :: string
  hle :: "string option"

datatype acc_size = SzWord | SzHalf | SzByte

text \<open>The lines written to the log file, by kind, with the values that are formatted.\<close>

datatype log_line =
    StoreLine acc_size int int string
  | FillLine acc_size int int int
  | LoadLine acc_size int int
  | PrefetchLine int
  | Wr int int
  | Wrb int int
  | HleText "8 word list"

record memory =
  device :: device
  logfile :: "log_line list option"
  instructions :: "int \<rightharpoonup> instr"
  skip_stores :: "int \<rightharpoonup> string"
  patch_notes :: "int \<rightharpoonup> string"
  patch_hle :: "int \<rightharpoonup> string"
  hle_handlers :: "string \<rightharpoonup> string"
  hle_symbols :: "(string \<rightharpoonup> int) option"
  local_addresses :: bytesio
  local_data :: bytesio
  rle :: run_encoder

definition SimARMMemory :: "device \<Rightarrow> log_line list option \<Rightarrow> memory" where
  "SimARMMemory dev lg =
     \<lparr> device = dev, logfile = lg, instructions = Map.empty, skip_stores = Map.empty,
       patch_notes = Map.empty, patch_hle = Map.empty, hle_handlers = Map.empty,
       hle_symbols = None, local_addresses = BytesIO, local_data = BytesIO,
       rle = RunEncoder \<rparr>"

definition dev_int :: "dev_call \<Rightarrow> memory \<Rightarrow> (int, memory) outcome" where
  "dev_int c m =
     (answer (device m) (calls (device m)) c,
      m\<lparr> device := (device m)\<lparr> calls := calls (device m) @ [c] \<rparr> \<rparr>)"

definition dev_bytes :: "dev_call \<Rightarrow> memory \<Rightarrow> (8 word list, memory) outcome" where
  "dev_bytes c m =
     (answer_bytes (device m) (calls (device m)) c,
      m\<lparr> device := (device m)\<lparr> calls := calls (device m) @ [c] \<rparr> \<rparr>)"

definition skip :: "int \<Rightarrow> string \<Rightarrow> memory \<Rightarrow> memory" where
  "skip a reason m = m\<lparr> skip_stores := (skip_stores m)(a \<mapsto> reason) \<rparr>"

text \<open>\<open>save_state\<close> writes the two streams to files; the files' contents are its result.\<close>

definition save_state :: "memory \<Rightarrow> (bytesio \<times> bytesio) \<times> memory" where
  "save_state m = ((local_addresses m, local_data m), m)"

definition local_ram :: "int \<Rightarrow> int \<Rightarrow> memory \<Rightarrow> (unit, memory) outcome" where
  "local_ram begin_a end_a m =
     bnd (seek begin_a m) (\<lambda>pos m.
       ok () (m\<lparr> local_addresses :=
                 bio_write (local_addresses m) pos (replicate (nat (end_a - begin_a + 1)) 0xff) \<rparr>))"

subsection \<open>Logging\<close>

definition log_replayable_write :: "int \<Rightarrow> int \<Rightarrow> acc_size \<Rightarrow> log_line list \<Rightarrow> int \<times> log_line list" where
  "log_replayable_write a d sz lg =
     (case sz of
        SzWord \<Rightarrow> (a + 4, lg @ [Wr a d])
      | SzByte \<Rightarrow> (a + 1, lg @ [Wrb a d])
      | SzHalf \<Rightarrow> (a + 2, lg @ [Wrb a (d AND 0xff), Wrb (a + 1) (drop_bit 8 d)]))"

definition log_store :: "int \<Rightarrow> int \<Rightarrow> acc_size \<Rightarrow> string \<Rightarrow> memory \<Rightarrow> memory" where
  "log_store a d sz message m =
     (case logfile m of
        None \<Rightarrow> m
      | Some lg \<Rightarrow>
          m\<lparr> logfile := Some (snd (log_replayable_write a d sz (lg @ [StoreLine sz a d message]))) \<rparr>)"

primrec log_fill_loop :: "nat \<Rightarrow> int \<Rightarrow> int \<Rightarrow> acc_size \<Rightarrow> log_line list \<Rightarrow> log_line list" where
  "log_fill_loop 0 a pattern sz lg = lg"
| "log_fill_loop (Suc n) a pattern sz lg =
     (let (a', lg') = log_replayable_write a pattern sz lg in log_fill_loop n a' pattern sz lg')"

definition log_fill :: "int \<Rightarrow> int \<Rightarrow> int \<Rightarrow> acc_size \<Rightarrow> memory \<Rightarrow> memory" where
  "log_fill a pattern cnt sz m =
     (case logfile m of
        None \<Rightarrow> m
      | Some lg \<Rightarrow>
          m\<lparr> logfile := Some (log_fill_loop (nat cnt) a pattern sz (lg @ [FillLine sz a pattern cnt])) \<rparr>)"

definition log_load :: "int \<Rightarrow> int \<Rightarrow> acc_size \<Rightarrow> memory \<Rightarrow> memory" where
  "log_load a d sz m =
     (case logfile m of None \<Rightarrow> m | Some lg \<Rightarrow> m\<lparr> logfile := Some (lg @ [LoadLine sz a d]) \<rparr>)"

definition log_prefetch :: "int \<Rightarrow> memory \<Rightarrow> memory" where
  "log_prefetch a m =
     (case logfile m of None \<Rightarrow> m | Some lg \<Rightarrow> m\<lparr> logfile := Some (lg @ [PrefetchLine a]) \<rparr>)"

subsection \<open>Stores after run-length consolidation\<close>

definition check_address :: "int \<Rightarrow> memory \<Rightarrow> (unit, memory) outcome" where
  "check_address a m = (if a \<ge> 0x05000000 then raise IndexError m else ok () m)"

text \<open>The \<open>while count > 0\<close> loop of \<open>post_rle_store\<close>, on the number of rounds left.\<close>

primrec post_rle_loop :: "nat \<Rightarrow> int \<Rightarrow> int \<Rightarrow> int \<Rightarrow> memory \<Rightarrow> (unit, memory) outcome" where
  "post_rle_loop 0 a pattern sz m = ok () m"
| "post_rle_loop (Suc n) a pattern sz m =
     bnd (check_address a m) (\<lambda>_ m.
       bnd (if sz = 4 then
              dev_int (Poke a pattern) (log_store a pattern SzWord [] m)
            else if sz = 2 then
              bnd (dev_int (PokeByte a (pattern AND 0xff)) (log_store a pattern SzHalf [] m)) (\<lambda>_ m.
                dev_int (PokeByte (a + 1) (drop_bit 8 pattern)) m)
            else if sz = 1 then
              dev_int (PokeByte a pattern) (log_store a pattern SzByte [] m)
            else raise AssertionError m) (\<lambda>_ m.
         post_rle_loop n (a + sz) pattern sz m))"

text \<open>
  With the key \<open>(None, None, None)\<close> both fill tests are false, and the loop, if the
  count lets it run, compares \<open>None\<close> with an integer in \<open>check_address\<close>.
\<close>

definition post_rle_store :: "run \<Rightarrow> memory \<Rightarrow> (unit, memory) outcome" where
  "post_rle_store r m =
     (case r of
        (cnt, None) \<Rightarrow> if cnt > 0 then raise TypeError m else ok () m
      | (cnt, Some (a, pattern, sz)) \<Rightarrow>
          if cnt > 1 \<and> sz = 4 then
            bnd (check_address a m) (\<lambda>_ m.
              bnd (dev_int (FillWords a pattern cnt) (log_fill a pattern cnt SzWord m)) (\<lambda>_ m. ok () m))
          else if cnt > 1 \<and> sz = 1 then
            bnd (check_address a m) (\<lambda>_ m.
              bnd (dev_int (FillBytes a pattern cnt) (log_fill a pattern cnt SzByte m)) (\<lambda>_ m. ok () m))
          else post_rle_loop (nat cnt) a pattern sz m)"

definition flush :: "memory \<Rightarrow> (unit, memory) outcome" where
  "flush m = (let (r, e) = rle_flush (rle m) in post_rle_store r (m\<lparr> rle := e \<rparr>))"

subsection \<open>Local data and flash prefetch\<close>

text \<open>
  \<open>read_block\<close> belongs to the transport side; it is one call that answers with the
  block it could read.
\<close>

definition fetch_local_data :: "int \<Rightarrow> int \<Rightarrow> memory \<Rightarrow> (int, memory) outcome" where
  "fetch_local_data a sz m =
     bnd (dev_bytes (ReadBlock a sz) m) (\<lambda>block m.
       bnd (local_ram a (a + int (length block) - 1) m) (\<lambda>_ m.
         ok (int (length block))
            (m\<lparr> local_data := bio_write (local_data m) (nat a) block \<rparr>)))"

text \<open>
  \<open>len(flags[:flags.find(b'\x00')])\<close>: \<open>find\<close> yields \<open>-1\<close> when no flag is zero, and
  the slice then drops the last flag.
\<close>

definition local_data_available :: "int \<Rightarrow> nat \<Rightarrow> memory \<Rightarrow> (int, memory) outcome" where
  "local_data_available a limit m =
     bnd (seek a m) (\<lambda>pos m.
       (let flags = bio_read (local_addresses m) pos limit
        in ok (if 0 \<in> set flags then int (length (takeWhile (\<lambda>b. b \<noteq> 0) flags))
               else int (length flags - 1)) m))"

definition flash_prefetch_hint :: "int \<Rightarrow> memory \<Rightarrow> (int, memory) outcome" where
  "flash_prefetch_hint a m =
     bnd (local_data_available a 0x100 m) (\<lambda>avail m.
       if a < 0x200000 \<and> avail < 8 then
         bnd (flush m) (\<lambda>_ m. fetch_local_data a 0x100 (log_prefetch a m))
       else ok avail m)"

subsection \<open>Loads\<close>

text \<open>
  The test every load and store starts with, after \<open>seek(address)\<close>:
  \<open>self.local_addresses.read(n) == b'\xff' * n\<close>.  In a load the \<open>seek\<close> cannot
  fail: \<open>flash_prefetch_hint\<close> has sought the same position before.
\<close>

definition present :: "nat \<Rightarrow> int \<Rightarrow> memory \<Rightarrow> bool" where
  "present n a m = (bio_read (local_addresses m) (nat a) n = replicate n 0xff)"

definition from_result :: "error + 'a \<Rightarrow> 's \<Rightarrow> ('a, 's) outcome" where
  "from_result r s = (r, s)"

definition load :: "int \<Rightarrow> memory \<Rightarrow> (int, memory) outcome" where
  "load a m =
     bnd (flash_prefetch_hint a m) (\<lambda>_ m.
       if present 4 a m then from_result (unpack 4 (bio_read (local_data m) (nat a) 4)) m
       else
         bnd (flush m) (\<lambda>_ m.
           bnd (dev_int (Peek a) m) (\<lambda>d m.
             bnd (check_address a (log_load a d SzWord m)) (\<lambda>_ m. ok d m))))"

definition load_half :: "int \<Rightarrow> memory \<Rightarrow> (int, memory) outcome" where
  "load_half a m =
     bnd (flash_prefetch_hint a m) (\<lambda>_ m.
       if present 2 a m then from_result (unpack 2 (bio_read (local_data m) (nat a) 2)) m
       else
         bnd (flush m) (\<lambda>_ m.
           bnd (dev_int (PeekByte a) m) (\<lambda>lo m.
             bnd (dev_int (PeekByte (a + 1)) m) (\<lambda>hi m.
               (let d = lo OR push_bit 8 hi in
                bnd (check_address a (log_load a d SzHalf m)) (\<lambda>_ m. ok d m))))))"

text \<open>\<open>ord\<close> of an empty read is a \<open>TypeError\<close>.\<close>

definition load_byte :: "int \<Rightarrow> memory \<Rightarrow> (int, memory) outcome" where
  "load_byte a m =
     bnd (flash_prefetch_hint a m) (\<lambda>_ m.
       if present 1 a m then
         (case bio_read (local_data m) (nat a) 1 of
            [b] \<Rightarrow> ok (uint b) m
          | _ \<Rightarrow> raise TypeError m)
       else
         bnd (flush m) (\<lambda>_ m.
           bnd (dev_int (PeekByte a) m) (\<lambda>d m.
             bnd (check_address a (log_load a d SzByte m)) (\<lambda>_ m. ok d m))))"

subsection \<open>Stores\<close>

text \<open>
  The part the three stores share once the shadow has been ruled out: the skip set,
  then the run encoder.  The skip message is logged with \<open>log_store\<close>'s default size.
\<close>

definition store_remote :: "int \<Rightarrow> int \<Rightarrow> int \<Rightarrow> memory \<Rightarrow> (unit, memory) outcome" where
  "store_remote a d sz m =
     (case skip_stores m a of
        Some reason \<Rightarrow> ok () (log_store a d SzWord (''(skipped: '' @ reason @ '')'') m)
      | None \<Rightarrow> (let (r, e) = rle_write a d sz (rle m) in post_rle_store r (m\<lparr> rle := e \<rparr>)))"

definition store_local :: "int \<Rightarrow> error + 8 word list \<Rightarrow> memory \<Rightarrow> (unit, memory) outcome" where
  "store_local a packed m =
     (case packed of
        Inl e \<Rightarrow> raise e m
      | Inr bs \<Rightarrow> ok () (m\<lparr> local_data := bio_write (local_data m) (nat a) bs \<rparr>))"

definition store :: "int \<Rightarrow> int \<Rightarrow> memory \<Rightarrow> (unit, memory) outcome" where
  "store a d m =
     bnd (seek a m) (\<lambda>pos m.
       if present 4 a m then store_local a (pack 4 d) m
       else store_remote a d 4 m)"

definition store_half :: "int \<Rightarrow> int \<Rightarrow> memory \<Rightarrow> (unit, memory) outcome" where
  "store_half a d m =
     bnd (seek a m) (\<lambda>pos m.
       if present 2 a m then store_local a (pack 2 d) m
       else store_remote a d 2 m)"

definition store_byte :: "int \<Rightarrow> int \<Rightarrow> memory \<Rightarrow> (unit, memory) outcome" where
  "store_byte a d m =
     bnd (seek a m) (\<lambda>pos m.
       if present 1 a m then store_local a (bytes1 d) m
       else store_remote a d 1 m)"

subsection \<open>The instruction cache\<close>

text \<open>
  The disassembler is outside the simulator: \<open>disasm data address thumb\<close> stands for
  \<open>disassembly_lines(disassemble_string(data, address, thumb=thumb))\<close>.
\<close>

type_synonym disassembler = "8 word list \<Rightarrow> int \<Rightarrow> bool \<Rightarrow> error + instr list"

definition icache_key :: "int \<Rightarrow> bool \<Rightarrow> int" where
  "icache_key a thumb = of_bool thumb OR (a AND NOT 1)"

fun load_assembly :: "instr list \<Rightarrow> bool \<Rightarrow> memory \<Rightarrow> memory" where
  "load_assembly (l # l' # rest) thumb m =
     (let addr = icache_key (address l) thumb;
          i = l\<lparr> next_address := address l', hle := patch_hle m addr \<rparr>
      in load_assembly (l' # rest) thumb
           (if instructions m addr = None
            then m\<lparr> instructions := (instructions m)(addr \<mapsto> i) \<rparr> else m))"
| "load_assembly ls thumb m = m"

definition load_instruction :: "disassembler \<Rightarrow> int \<Rightarrow> bool \<Rightarrow> memory \<Rightarrow> (unit, memory) outcome" where
  "load_instruction disasm a thumb m =
     bnd (flush m) (\<lambda>_ m.
       bnd (flash_prefetch_hint a m) (\<lambda>block_size m.
         if \<not> block_size \<ge> 8 then raise AssertionError m
         else bnd (from_result (disasm (bio_read (local_data m) (nat a) (nat block_size)) a thumb) m)
                (\<lambda>lines m. ok () (load_assembly lines thumb m))))"

definition lookup :: "('k \<rightharpoonup> 'v) \<Rightarrow> 'k \<Rightarrow> 's \<Rightarrow> ('v, 's) outcome" where
  "lookup d k s = (case d k of None \<Rightarrow> raise KeyError s | Some v \<Rightarrow> ok v s)"

definition fetch :: "disassembler \<Rightarrow> int \<Rightarrow> bool \<Rightarrow> memory \<Rightarrow> (instr, memory) outcome" where
  "fetch disasm a thumb m =
     (case instructions m (icache_key a thumb) of
        Some i \<Rightarrow> ok i m
      | None \<Rightarrow>
          bnd (check_address a m) (\<lambda>_ m.
            bnd (load_instruction disasm a thumb m) (\<lambda>_ m.
              lookup (instructions m) (icache_key a thumb) m)))"

subsection \<open>High-level emulation\<close>

text \<open>
  \<open>hle_init\<close> hands the device and the handler bodies to \<open>compile_library\<close>, which
  is outside the simulator: it may use the device, and it answers with the entry points
  by name or raises.  (The default \<open>code_address\<close> is its concern; the line printed to
  standard output is not part of the state.)
\<close>

type_synonym compiler = "device \<Rightarrow> (string \<rightharpoonup> string) \<Rightarrow> (string \<rightharpoonup> int, device) outcome"

definition hle_init :: "compiler \<Rightarrow> memory \<Rightarrow> (unit, memory) outcome" where
  "hle_init compile_library m =
     (case compile_library (device m) (hle_handlers m) of
        (Inl e, dev) \<Rightarrow> raise e (m\<lparr> device := dev \<rparr>)
      | (Inr symbols, dev) \<Rightarrow> ok () (m\<lparr> device := dev, hle_symbols := Some symbols \<rparr>))"

text \<open>
  \<open>hle_invoke\<close>: discard the console, call the handler on the device, read the console
  and log it.  The console text arrives decoded; a failure to decode is among the
  failures the console read can answer with.  \<open>hle_symbols\<close> exists once \<open>hle_init\<close> has
  run.
\<close>

definition hle_invoke :: "instr \<Rightarrow> int \<Rightarrow> memory \<Rightarrow> (int, memory) outcome" where
  "hle_invoke i r0 m =
     bnd (dev_int ConsoleDiscard m) (\<lambda>_ m.
       (case hle_symbols m of
          None \<Rightarrow> raise AttributeError m
        | Some syms \<Rightarrow>
            (case hle i of
               None \<Rightarrow> raise KeyError m
             | Some name \<Rightarrow>
                 bnd (lookup syms name m) (\<lambda>entry m.
                   bnd (dev_int (Blx entry r0) m) (\<lambda>r0' m.
                     bnd (dev_bytes ConsoleRead m) (\<lambda>logdata m.
                       ok r0' (case logfile m of
                                 None \<Rightarrow> m
                               | Some lg \<Rightarrow> m\<lparr> logfile := Some (lg @ [HleText logdata]) \<rparr>)))))))"

section \<open>The simulated processor\<close>

text \<open>
  A \<open>SimARM\<close> object.  The flags and \<open>thumb\<close> hold \<open>False\<close>/\<open>True\<close> or \<open>0\<close>/\<open>1\<close> in
  Python, which the code uses interchangeably; they are booleans here and \<open>of_bool\<close>
  where the code computes with them.  \<open>branch\<close> is the attribute \<open>_branch\<close>.  \<open>csprC\<close>
  is the attribute of that (misspelt) name, which exists on the object once \<open>op_mvns\<close>
  has assigned it.  \<open>regs\<close> always has 16 entries in the source.
\<close>

record sim =
  memory :: memory
  regs :: "int list"
  thumb :: bool
  cpsrV :: bool
  cpsrC :: bool
  cpsrZ :: bool
  cpsrN :: bool
  step_count :: int
  branch :: "int option"
  csprC :: "int option"

definition reset :: "int \<Rightarrow> sim \<Rightarrow> sim" where
  "reset vector s =
     s\<lparr> regs := ((replicate 16 0)[15 := vector AND 0xfffffffe])[14 := 0xffffffff],
        thumb := (vector AND 1 \<noteq> 0),
        cpsrV := False, cpsrC := False, cpsrZ := False, cpsrN := False,
        step_count := 0 \<rparr>"

text \<open>
  \<open>__init__\<close>: keep the memory proxy, \<open>reset(0)\<close>, build the attribute table
  (\<open>sim_attrs\<close> below), and last call \<open>self.memory.hle_init()\<close>.  \<open>initial_sim m\<close> is
  the object over the proxy \<open>m\<close>; the constructor yields it over the proxy as
  \<open>hle_init\<close> left it, or raises what \<open>hle_init\<close> raises.
\<close>

definition initial_sim :: "memory \<Rightarrow> sim" where
  "initial_sim m =
     reset 0 \<lparr> memory = m, regs = [], thumb = False, cpsrV = False, cpsrC = False,
               cpsrZ = False, cpsrN = False, step_count = 0, branch = None, csprC = None \<rparr>"

definition SimARM :: "compiler \<Rightarrow> memory \<Rightarrow> (sim, memory) outcome" where
  "SimARM compile_library m =
     bnd (hle_init compile_library m) (\<lambda>_ m. ok (initial_sim m) m)"

definition with_memory :: "(memory \<Rightarrow> ('a, memory) outcome) \<Rightarrow> sim \<Rightarrow> ('a, sim) outcome" where
  "with_memory f s = (case f (memory s) of (r, m) \<Rightarrow> (r, s\<lparr> memory := m \<rparr>))"

subsection \<open>Operand parsing\<close>

definition reg_names :: "string list" where
  "reg_names = [''r0'', ''r1'', ''r2'', ''r3'', ''r4'', ''r5'', ''r6'', ''r7'',
                ''r8'', ''r9'', ''r10'', ''r11'', ''r12'', ''sp'', ''lr'', ''pc'']"

definition alt_names :: "string list" where
  "alt_names = [''a1'', ''a2'', ''a3'', ''a4'', ''v1'', ''v2'', ''v3'', ''v4'',
                ''v5'', ''sb'', ''sl'', ''fp'', ''ip'', ''r13'', ''r14'', ''r15'']"

definition reg_numbers :: "string \<rightharpoonup> nat" where
  "reg_numbers =
     map_of (map (\<lambda>(i, name). (name, i)) (enumerate 0 reg_names))
     ++ map_of (map (\<lambda>(i, name). (name, i)) (enumerate 0 alt_names))"

definition bind_r :: "error + 'a \<Rightarrow> ('a \<Rightarrow> error + 'b) \<Rightarrow> error + 'b" where
  "bind_r r f = (case r of Inl e \<Rightarrow> Inl e | Inr v \<Rightarrow> f v)"

definition reg_number :: "string \<Rightarrow> error + nat" where
  "reg_number name = (case reg_numbers name of None \<Rightarrow> Inl KeyError | Some rn \<Rightarrow> Inr rn)"

definition int0 :: "string \<Rightarrow> error + int" where
  "int0 s = (case py_int0 s of None \<Rightarrow> Inl ValueError | Some n \<Rightarrow> Inr n)"

text \<open>Unpacking a list into two names raises \<open>ValueError\<close> unless it has two items.\<close>

definition unpack2 :: "'a list \<Rightarrow> error + ('a \<times> 'a)" where
  "unpack2 l = (case l of [a, b] \<Rightarrow> Inr (a, b) | _ \<Rightarrow> Inl ValueError)"

definition reg_or_literal :: "string \<Rightarrow> error + (sim \<Rightarrow> int)" where
  "reg_or_literal s =
     (case s of
        [] \<Rightarrow> Inl IndexError
      | c # cs \<Rightarrow>
          if c = CHR ''#'' then bind_r (int0 cs) (\<lambda>n. Inr (\<lambda>s. n AND 0xffffffff))
          else bind_r (reg_number s) (\<lambda>rn. Inr (\<lambda>s. regs s ! rn)))"

definition reg_or_target :: "string \<Rightarrow> error + (sim \<Rightarrow> int)" where
  "reg_or_target s =
     (case reg_numbers s of
        Some rn \<Rightarrow> Inr (\<lambda>s. regs s ! rn)
      | None \<Rightarrow> bind_r (int0 s) (\<lambda>n. Inr (\<lambda>s. n AND 0xffffffff)))"

definition shifter :: "string \<Rightarrow> error + (sim \<Rightarrow> int \<times> int)" where
  "shifter s =
     (let plain = bind_r (reg_or_literal s) (\<lambda>a. Inr (\<lambda>st. (a st, 0)))
      in case py_splitn '', '' 1 s of
           [l0, l1] \<Rightarrow>
             (case py_split '' '' l1 of
                [] \<Rightarrow> Inl IndexError
              | [t0] \<Rightarrow>
                  bind_r (reg_or_literal l0) (\<lambda>a.
                    bind_r (int0 t0) (\<lambda>b. Inr (\<lambda>st. ror (a st) (b AND 0xffffffff))))
              | t0 # t1 # ts \<Rightarrow>
                  bind_r (reg_or_literal l0) (\<lambda>a.
                    bind_r (reg_or_literal t1) (\<lambda>b.
                      if t0 = ''lsl'' then Inr (\<lambda>st. lsl (a st) (b st))
                      else if t0 = ''lsr'' then Inr (\<lambda>st. lsr (a st) (b st))
                      else if t0 = ''asr'' then Inr (\<lambda>st. asr (a st) (b st))
                      else if t0 = ''rol'' then Inr (\<lambda>st. rol (a st) (b st))
                      else if t0 = ''ror'' then Inr (\<lambda>st. ror (a st) (b st))
                      else plain)))
         | _ \<Rightarrow> plain)"

definition reladdr :: "string \<Rightarrow> error + (sim \<Rightarrow> int)" where
  "reladdr right =
     (if right = [] then Inl IndexError
      else if hd right \<noteq> CHR ''['' then Inl AssertionError
      else if last right = CHR '']'' then
        (case py_splitn '', '' 1 (py_strip ''[]'' right) of
           [a0] \<Rightarrow> bind_r (reg_number a0) (\<lambda>vn. Inr (\<lambda>st. regs st ! vn))
         | a0 # a1 # r \<Rightarrow>
             bind_r (reg_number a0) (\<lambda>vn.
               if a1 = [] then Inl IndexError
               else if hd a1 = CHR ''-'' then
                 bind_r (shifter (tl a1)) (\<lambda>sF. Inr (\<lambda>st. (regs st ! vn - fst (sF st)) AND 0xffffffff))
               else
                 bind_r (shifter a1) (\<lambda>sF. Inr (\<lambda>st. (regs st ! vn + fst (sF st)) AND 0xffffffff)))
         | [] \<Rightarrow> Inl IndexError)
      else
        (case py_split '', '' right of
           [] \<Rightarrow> Inl IndexError
         | a0 # r \<Rightarrow>
             bind_r (reg_number (py_strip ''[]'' a0)) (\<lambda>vn.
               (case r of
                  [] \<Rightarrow> Inl IndexError
                | a1 # r' \<Rightarrow>
                    bind_r (reg_or_literal a1) (\<lambda>rl.
                      Inr (\<lambda>st. (regs st ! vn + rl st) AND 0xffffffff))))))"

definition dstpc :: "string \<Rightarrow> error + (int \<Rightarrow> sim \<Rightarrow> sim)" where
  "dstpc dst =
     (if dst = ''pc'' then
        Inr (\<lambda>r s. s\<lparr> branch := Some (r AND 0xfffffffe), thumb := (r AND 1 \<noteq> 0) \<rparr>)
      else
        bind_r (reg_number dst) (\<lambda>rn. Inr (\<lambda>r s. s\<lparr> regs := (regs s)[rn := r AND 0xffffffff] \<rparr>)))"

subsection \<open>Operation factories\<close>

text \<open>
  A factory parses an instruction once and returns the thunk that executes it, or raises.
  The factories embedded here are the ones the properties below run; the others have the
  same shape.
\<close>

type_synonym opfunc = "sim \<Rightarrow> (unit, sim) outcome"
type_synonym factory = "instr \<Rightarrow> error + opfunc"

definition op_ldr :: factory where
  "op_ldr i =
     bind_r (unpack2 (py_splitn '', '' 1 (args i))) (\<lambda>(left, right).
       bind_r (dstpc left) (\<lambda>dF.
         bind_r (reladdr right) (\<lambda>aF.
           Inr (\<lambda>s. bnd (with_memory (load (aF s)) s) (\<lambda>v s. ok () (dF v s))))))"

definition op_str :: factory where
  "op_str i =
     bind_r (unpack2 (py_splitn '', '' 1 (args i))) (\<lambda>(left, right).
       bind_r (reg_number left) (\<lambda>rn.
         bind_r (reladdr right) (\<lambda>rel.
           Inr (\<lambda>s. with_memory (store (rel s) (regs s ! rn)) s))))"

definition op_b :: factory where
  "op_b i = bind_r (int0 (args i)) (\<lambda>dest. Inr (\<lambda>s. ok () (s\<lparr> branch := Some dest \<rparr>)))"

definition op_bl :: factory where
  "op_bl i =
     bind_r (reg_or_target (args i)) (\<lambda>t.
       Inr (\<lambda>s. (let s1 = s\<lparr> regs := (regs s)[14 := next_address i OR of_bool (thumb s)] \<rparr>
                 in ok () (s1\<lparr> branch := Some (t s1) \<rparr>))))"

definition op_nop :: factory where
  "op_nop i = Inr (\<lambda>s. ok () s)"

definition op_mov :: factory where
  "op_mov i =
     bind_r (unpack2 (py_splitn '', '' 1 (args i))) (\<lambda>(dst, src).
       bind_r (shifter src) (\<lambda>sF.
         bind_r (dstpc dst) (\<lambda>dF.
           Inr (\<lambda>s. ok () (dF (fst (sF s)) s)))))"

definition op_movs :: factory where
  "op_movs i =
     bind_r (unpack2 (py_splitn '', '' 1 (args i))) (\<lambda>(dst, src).
       bind_r (shifter src) (\<lambda>sF.
         bind_r (dstpc dst) (\<lambda>dF.
           Inr (\<lambda>s. (let (r, c) = sF s;
                         s1 = s\<lparr> cpsrC := (c \<noteq> 0) \<rparr>;
                         s2 = s1\<lparr> cpsrZ := (r = 0) \<rparr>;
                         s3 = s2\<lparr> cpsrN := (drop_bit 31 r AND 1 \<noteq> 0) \<rparr>
                     in ok () (dF r s3))))))"

definition op_mvn :: factory where
  "op_mvn i =
     bind_r (unpack2 (py_splitn '', '' 1 (args i))) (\<lambda>(dst, src).
       bind_r (shifter src) (\<lambda>sF.
         bind_r (dstpc dst) (\<lambda>dF.
           Inr (\<lambda>s. ok () (dF (fst (sF s) XOR 0xffffffff) s)))))"

definition op_mvns :: factory where
  "op_mvns i =
     bind_r (unpack2 (py_splitn '', '' 1 (args i))) (\<lambda>(dst, src).
       bind_r (shifter src) (\<lambda>sF.
         bind_r (dstpc dst) (\<lambda>dF.
           Inr (\<lambda>s. (let (r0, c) = sF s;
                         s1 = s\<lparr> csprC := Some c \<rparr>;
                         r = r0 XOR 0xffffffff;
                         s2 = s1\<lparr> cpsrZ := (r = 0) \<rparr>;
                         s3 = s2\<lparr> cpsrN := (drop_bit 31 r AND 1 \<noteq> 0) \<rparr>
                     in ok () (dF r s3))))))"

text \<open>\<open>_3arg\<close>: two operands mean that the destination is also the first source.\<close>

definition three_arg :: "instr \<Rightarrow> string list" where
  "three_arg i = (let l = py_splitn '', '' 2 (args i) in if length l = 3 then l else hd l # l)"

definition unpack3 :: "'a list \<Rightarrow> error + ('a \<times> 'a \<times> 'a)" where
  "unpack3 l = (case l of [a, b, c] \<Rightarrow> Inr (a, b, c) | _ \<Rightarrow> Inl ValueError)"

definition op_lsls :: factory where
  "op_lsls i =
     bind_r (unpack3 (three_arg i)) (\<lambda>(dst, src0, src1).
       bind_r (dstpc dst) (\<lambda>fD.
         bind_r (reg_number src0) (\<lambda>n0.
           bind_r (reg_or_literal src1) (\<lambda>f1.
             Inr (\<lambda>s. (let (r, c) = lsl (regs s ! n0) (f1 s);
                           s1 = s\<lparr> cpsrC := (c \<noteq> 0) \<rparr>;
                           s2 = s1\<lparr> cpsrZ := (r AND 0xffffffff = 0) \<rparr>;
                           s3 = s2\<lparr> cpsrN := (drop_bit 31 r AND 1 \<noteq> 0) \<rparr>
                       in ok () (fD r s3)))))))"

subsection \<open>Condition codes\<close>

text \<open>
  \<open>_generate_condition_codes(fn, name)\<close> sets seventeen attributes.  \<open>name\<close> is a
  format with one \<open>%s\<close>, here the text before and after it.  Each entry is a factory
  that calls \<open>fn\<close> when it is compiled and tests the flags when the thunk runs.
\<close>

definition conditional :: "(sim \<Rightarrow> bool) \<Rightarrow> factory \<Rightarrow> factory" where
  "conditional p fn = (\<lambda>i. bind_r (fn i) (\<lambda>f. Inr (\<lambda>s. if p s then f s else ok () s)))"

definition generate_condition_codes ::
  "factory \<Rightarrow> string \<times> string \<Rightarrow> (string \<rightharpoonup> factory) \<Rightarrow> (string \<rightharpoonup> factory)" where
  "generate_condition_codes fn name tbl =
     (case name of (pre, post) \<Rightarrow>
      tbl
       (pre @ ''eq'' @ post \<mapsto> conditional (\<lambda>s. cpsrZ s) fn,
        pre @ ''ne'' @ post \<mapsto> conditional (\<lambda>s. \<not> cpsrZ s) fn,
        pre @ ''cs'' @ post \<mapsto> conditional (\<lambda>s. cpsrC s) fn,
        pre @ ''hs'' @ post \<mapsto> conditional (\<lambda>s. cpsrC s) fn,
        pre @ ''cc'' @ post \<mapsto> conditional (\<lambda>s. \<not> cpsrC s) fn,
        pre @ ''lo'' @ post \<mapsto> conditional (\<lambda>s. \<not> cpsrC s) fn,
        pre @ ''mi'' @ post \<mapsto> conditional (\<lambda>s. cpsrN s) fn,
        pre @ ''pl'' @ post \<mapsto> conditional (\<lambda>s. \<not> cpsrN s) fn,
        pre @ ''vs'' @ post \<mapsto> conditional (\<lambda>s. cpsrV s) fn,
        pre @ ''vc'' @ post \<mapsto> conditional (\<lambda>s. \<not> cpsrV s) fn,
        pre @ ''hi'' @ post \<mapsto> conditional (\<lambda>s. cpsrC s \<and> \<not> cpsrZ s) fn,
        pre @ ''ls'' @ post \<mapsto> conditional (\<lambda>s. cpsrZ s \<or> \<not> cpsrC s) fn,
        pre @ ''ge'' @ post \<mapsto> conditional (\<lambda>s. (\<not> cpsrN s) = (\<not> cpsrV s)) fn,
        pre @ ''lt'' @ post \<mapsto> conditional (\<lambda>s. (\<not> cpsrN s) \<noteq> (\<not> cpsrV s)) fn,
        pre @ ''gt'' @ post \<mapsto> conditional (\<lambda>s. (\<not> cpsrN s) = (\<not> cpsrV s) \<and> \<not> cpsrZ s) fn,
        pre @ ''le'' @ post \<mapsto> conditional (\<lambda>s. (\<not> cpsrN s) \<noteq> (\<not> cpsrV s) \<or> cpsrZ s) fn,
        pre @ ''al'' @ post \<mapsto> fn))"

text \<open>
  The \<open>op_\<close> methods of the class that are embedded here, and the attribute table
  \<open>__init__\<close> builds from them: every method, and its conditional variants under the
  names \<open>name + '%s'\<close>.  \<open>getattr\<close> finds the instance attributes first.
\<close>

definition op_methods :: "(string \<times> factory) list" where
  "op_methods =
     [(''op_ldr'', op_ldr), (''op_str'', op_str), (''op_b'', op_b), (''op_bl'', op_bl),
      (''op_nop'', op_nop), (''op_mov'', op_mov), (''op_movs'', op_movs),
      (''op_mvn'', op_mvn), (''op_mvns'', op_mvns), (''op_lsls'', op_lsls)]"

definition sim_attrs :: "string \<rightharpoonup> factory" where
  "sim_attrs =
     map_of op_methods
     ++ fold (\<lambda>(name, fn). generate_condition_codes fn (name, [])) op_methods Map.empty"

section \<open>The step driver\<close>

text \<open>
  What \<open>step\<close> takes from outside the processor state: the hook table of the memory
  proxy (a hook is any callable on the simulator, so the table cannot be part of the
  state it acts on; it is read-only during a call of \<open>step\<close>), the disassembler, and
  the object's attribute table, which \<open>getattr\<close> searches for \<open>'op_' + mnemonic\<close>.
\<close>

record env =
  hooks :: "int \<rightharpoonup> opfunc"
  disasm :: disassembler
  attrs :: "string \<rightharpoonup> factory"

datatype flow = Running | Returned

text \<open>
  The body of the \<open>try\<close> block: compile the opfunc, run it, set the program counter
  from \<open>self._branch or instr.next_address\<close> (Python's \<open>or\<close> takes the right operand
  when the left one is \<open>None\<close> or \<open>0\<close>), and return from \<open>step\<close> at the breakpoint.
\<close>

definition step_try :: "env \<Rightarrow> instr \<Rightarrow> int option \<Rightarrow> sim \<Rightarrow> (flow, sim) outcome" where
  "step_try ev i breakpoint s =
     (case attrs ev (''op_'' @ hd (py_splitn ''.'' 1 (op i))) of
        None \<Rightarrow> raise AttributeError s
      | Some fn \<Rightarrow>
          bnd (from_result (fn i) s) (\<lambda>opfunc s.
            bnd (opfunc s) (\<lambda>_ s.
              (let pc = (case branch s of
                           None \<Rightarrow> next_address i
                         | Some b \<Rightarrow> if b = 0 then next_address i else b);
                   s' = s\<lparr> regs := (regs s)[15 := pc] \<rparr>
               in if Some pc = breakpoint then ok Returned s' else ok Running s'))))"

definition step_once :: "env \<Rightarrow> int option \<Rightarrow> sim \<Rightarrow> (flow, sim) outcome" where
  "step_once ev breakpoint s0 =
     (let s = s0\<lparr> step_count := step_count s0 + 1 \<rparr>;
          hook = hooks ev (regs s ! 15)
      in bnd (with_memory (fetch (disasm ev) (regs s ! 15) (thumb s)) s) (\<lambda>i s.
           (let s1 = s\<lparr> branch := None \<rparr>;
                s2 = s1\<lparr> regs := (regs s1)[15 := (if thumb s1 then (next_address i + 3) AND NOT 3
                                                   else regs s1 ! 15 + 8)] \<rparr>
            in case step_try ev i breakpoint s2 of
                 (Inl e, s3) \<Rightarrow> (Inl e, s3\<lparr> regs := (regs s3)[15 := address i] \<rparr>)
               | (Inr Returned, s3) \<Rightarrow> ok Returned s3
               | (Inr Running, s3) \<Rightarrow>
                   bnd (case hle i of
                          None \<Rightarrow> ok () s3
                        | Some name \<Rightarrow>
                            if name = [] then ok () s3
                            else bnd (with_memory (hle_invoke i (regs s3 ! 0)) s3) (\<lambda>r0 s.
                                   ok () (s\<lparr> regs := (regs s)[0 := r0] \<rparr>))) (\<lambda>_ s.
                     (case hook of
                        None \<Rightarrow> ok Running s
                      | Some h \<Rightarrow> bnd (h s) (\<lambda>_ s. ok Running s))))))"

primrec step_loop :: "nat \<Rightarrow> env \<Rightarrow> int option \<Rightarrow> sim \<Rightarrow> (unit, sim) outcome" where
  "step_loop 0 ev breakpoint s = ok () s"
| "step_loop (Suc n) ev breakpoint s =
     bnd (step_once ev breakpoint s) (\<lambda>fl s.
       case fl of Returned \<Rightarrow> ok () s | Running \<Rightarrow> step_loop n ev breakpoint s)"

definition step :: "env \<Rightarrow> int \<Rightarrow> int option \<Rightarrow> sim \<Rightarrow> (unit, sim) outcome" where
  "step ev repeat breakpoint s = step_loop (nat repeat) ev breakpoint s"

section \<open>The condition codes of \<^verbatim>\<open>sim_arm.py\<close>\<close>

text \<open>
  In \<^verbatim>\<open>sim_arm.py\<close> an \<open>op_\<close> method executes the instruction at once, and the
  conditional entries test the flags before they call it.
\<close>

type_synonym direct_op = "instr \<Rightarrow> sim \<Rightarrow> (unit, sim) outcome"

definition direct_conditional :: "(sim \<Rightarrow> bool) \<Rightarrow> direct_op \<Rightarrow> direct_op" where
  "direct_conditional p fn = (\<lambda>i s. if p s then fn i s else ok () s)"

definition direct_generate_condition_codes ::
  "direct_op \<Rightarrow> string \<times> string \<Rightarrow> (string \<rightharpoonup> direct_op) \<Rightarrow> (string \<rightharpoonup> direct_op)" where
  "direct_generate_condition_codes fn name tbl =
     (case name of (pre, post) \<Rightarrow>
      tbl
       (pre @ ''eq'' @ post \<mapsto> direct_conditional (\<lambda>s. cpsrZ s) fn,
        pre @ ''ne'' @ post \<mapsto> direct_conditional (\<lambda>s. \<not> cpsrZ s) fn,
        pre @ ''cs'' @ post \<mapsto> direct_conditional (\<lambda>s. cpsrC s) fn,
        pre @ ''hs'' @ post \<mapsto> direct_conditional (\<lambda>s. cpsrC s) fn,
        pre @ ''cc'' @ post \<mapsto> direct_conditional (\<lambda>s. \<not> cpsrC s) fn,
        pre @ ''lo'' @ post \<mapsto> direct_conditional (\<lambda>s. \<not> cpsrC s) fn,
        pre @ ''mi'' @ post \<mapsto> direct_conditional (\<lambda>s. cpsrN s) fn,
        pre @ ''pl'' @ post \<mapsto> direct_conditional (\<lambda>s. \<not> cpsrN s) fn,
        pre @ ''vs'' @ post \<mapsto> direct_conditional (\<lambda>s. cpsrV s) fn,
        pre @ ''vc'' @ post \<mapsto> direct_conditional (\<lambda>s. \<not> cpsrV s) fn,
        pre @ ''hi'' @ post \<mapsto> direct_conditional (\<lambda>s. cpsrC s \<and> \<not> cpsrZ s) fn,
        pre @ ''ls'' @ post \<mapsto> direct_conditional (\<lambda>s. cpsrZ s \<and> \<not> cpsrC s) fn,
        pre @ ''ge'' @ post \<mapsto> direct_conditional (\<lambda>s. (\<not> \<not> cpsrN s) = (\<not> \<not> cpsrV s)) fn,
        pre @ ''lt'' @ post \<mapsto> direct_conditional (\<lambda>s. (\<not> \<not> cpsrN s) \<noteq> (\<not> \<not> cpsrV s)) fn,
        pre @ ''gt'' @ post \<mapsto> direct_conditional (\<lambda>s. (\<not> \<not> cpsrN s) = (\<not> \<not> cpsrV s) \<and> \<not> cpsrZ s) fn,
        pre @ ''le'' @ post \<mapsto> direct_conditional (\<lambda>s. (\<not> \<not> cpsrN s) \<noteq> (\<not> \<not> cpsrV s) \<or> cpsrZ s) fn,
        pre @ ''al'' @ post \<mapsto> fn))"

text \<open>\<open>op_b\<close> of \<^verbatim>\<open>sim_arm.py\<close>: \<open>self._branch = int(i.args, 0)\<close>.\<close>

definition direct_op_b :: direct_op where
  "direct_op_b i s =
     (case int0 (args i) of Inl e \<Rightarrow> raise e s | Inr dest \<Rightarrow> ok () (s\<lparr> branch := Some dest \<rparr>))"

section \<open>Standard predicates\<close>

text \<open>The ARM condition table, by suffix, as a predicate on the flags N, Z, C, V.\<close>

definition arm_condition :: "string \<Rightarrow> bool \<Rightarrow> bool \<Rightarrow> bool \<Rightarrow> bool \<Rightarrow> bool option" where
  "arm_condition cc n z c v =
     (if cc = ''eq'' then Some z else if cc = ''ne'' then Some (\<not> z)
      else if cc = ''cs'' \<or> cc = ''hs'' then Some c
      else if cc = ''cc'' \<or> cc = ''lo'' then Some (\<not> c)
      else if cc = ''mi'' then Some n else if cc = ''pl'' then Some (\<not> n)
      else if cc = ''vs'' then Some v else if cc = ''vc'' then Some (\<not> v)
      else if cc = ''hi'' then Some (c \<and> \<not> z) else if cc = ''ls'' then Some (z \<or> \<not> c)
      else if cc = ''ge'' then Some (n = v) else if cc = ''lt'' then Some (n \<noteq> v)
      else if cc = ''gt'' then Some (n = v \<and> \<not> z) else if cc = ''le'' then Some (n \<noteq> v \<or> z)
      else if cc = ''al'' then Some True else None)"

text \<open>
  The test of \<open>flash_prefetch_hint\<close>: the address lies in flash and fewer than 8 bytes
  of shadow are available there, so the pending run is flushed and a block is read.
\<close>

definition prefetch_due :: "int \<Rightarrow> memory \<Rightarrow> bool" where
  "prefetch_due a m =
     (case fst (local_data_available a 0x100 m) of
        Inl e \<Rightarrow> False
      | Inr avail \<Rightarrow> a < 0x200000 \<and> avail < 8)"

text \<open>
  An operation that started in \<open>m\<close> and ended in \<open>m'\<close> flushed before it reached the
  transport: the call history of \<open>m'\<close> is the history as \<open>flush\<close> leaves it from
  \<open>m\<close> (the pokes and fills of the pending run, last), followed by calls from
  \<open>reads\<close> only; these were made only if the flush succeeded; and the run encoder
  is empty in \<open>m'\<close>.
\<close>

definition flushed_first :: "dev_call set \<Rightarrow> memory \<Rightarrow> memory \<Rightarrow> bool" where
  "flushed_first reads m m' =
     (let flushed = calls (device (snd (flush m)));
          later = drop (length flushed) (calls (device m'))
      in rle m' = RunEncoder
         \<and> calls (device m') = flushed @ later
         \<and> set later \<subseteq> reads
         \<and> (later \<noteq> [] \<longrightarrow> fst (flush m) = Inr ()))"

section \<open>States and instructions for the examples\<close>

text \<open>
  Names for the concrete inputs of the examples below: a device that answers every call
  with 0, a memory proxy as \<open>SimARMMemory(device)\<close> creates it, and states reached from
  it by calls of the proxy's own operations.
\<close>

abbreviation quiet_device :: device where
  "quiet_device \<equiv> \<lparr> calls = [], answer = (\<lambda>h c. Inr 0), answer_bytes = (\<lambda>h c. Inr []) \<rparr>"

abbreviation fresh_memory :: memory where
  "fresh_memory \<equiv> SimARMMemory quiet_device None"

text \<open>
  The same proxy after \<open>hle_init\<close> with a compiler that has no handlers to compile: the
  proxy of a simulator that \<open>SimARM\<close> has built.
\<close>

abbreviation ready_memory :: memory where
  "ready_memory \<equiv> snd (hle_init (\<lambda>dev handlers. ok Map.empty dev) fresh_memory)"

text \<open>One word store to a device address: a run of one is pending.\<close>

abbreviation pending_memory :: memory where
  "pending_memory \<equiv> snd (store 0x2000000 7 fresh_memory)"

text \<open>The same store on the proxy of a simulator.\<close>

abbreviation pending_ready :: memory where
  "pending_ready \<equiv> snd (store 0x2000000 7 ready_memory)"

text \<open>
  \<open>local_ram(0x3000000, 0x3000003)\<close> on the proxy of a simulator, with nothing stored
  there, then a word stored to a device address.
\<close>

abbreviation unwritten_pending :: memory where
  "unwritten_pending \<equiv>
     snd (bnd (local_ram 0x3000000 0x3000003 ready_memory) (\<lambda>_ m. store 0x2000000 7 m))"

text \<open>
  \<open>local_ram(0x3000000, 0x3000003)\<close>, a word stored there, then a word stored to a
  device address.
\<close>

abbreviation shadowed_pending :: memory where
  "shadowed_pending \<equiv>
     snd (bnd (local_ram 0x3000000 0x3000003 fresh_memory)
            (\<lambda>_ m. bnd (store 0x3000000 0x11223344 m) (\<lambda>_ m. store 0x2000000 7 m)))"

text \<open>\<open>local_ram(0x2000000, 0x2000001)\<close>: two of the four bytes of a word are present.\<close>

abbreviation partial_memory :: memory where
  "partial_memory \<equiv> snd (local_ram 0x2000000 0x2000001 fresh_memory)"

text \<open>
  The processor over a memory proxy \<open>m\<close> whose instruction cache holds \<open>i\<close> for
  address \<open>0x100\<close>, in ARM mode with the program counter there.
\<close>

abbreviation poised :: "memory \<Rightarrow> instr \<Rightarrow> sim" where
  "poised m i \<equiv>
     (initial_sim (m\<lparr> instructions := [0x100 \<mapsto> i] \<rparr>))
       \<lparr> regs := (regs (initial_sim (m\<lparr> instructions := [0x100 \<mapsto> i] \<rparr>)))[15 := 0x100] \<rparr>"

text \<open>
  The state in which the \<open>try\<close> block of \<open>step\<close> starts, from the state \<open>s\<close> that
  \<open>fetch\<close> left: \<open>_branch\<close> cleared and the program counter at its architectural
  value for the instruction \<open>i\<close>.
\<close>

abbreviation entering :: "instr \<Rightarrow> sim \<Rightarrow> sim" where
  "entering i s \<equiv>
     s\<lparr> branch := None,
        regs := (regs s)[15 := (if thumb s then (next_address i + 3) AND NOT 3
                                else regs s ! 15 + 8)] \<rparr>"

text \<open>The value of \<open>self._branch or instr.next_address\<close> in the state \<open>s\<close>.\<close>

abbreviation branch_or_next :: "instr \<Rightarrow> sim \<Rightarrow> int" where
  "branch_or_next i s \<equiv>
     (case branch s of None \<Rightarrow> next_address i | Some b \<Rightarrow> if b = 0 then next_address i else b)"

text \<open>No hooks, a disassembler that yields no lines, and the attribute table.\<close>

abbreviation plain_env :: env where
  "plain_env \<equiv> \<lparr> hooks = Map.empty, disasm = (\<lambda>b a t. Inr []), attrs = sim_attrs \<rparr>"

text \<open>The same with a hook for \<open>0x100\<close> that raises.\<close>

abbreviation raising_hook_env :: env where
  "raising_hook_env \<equiv>
     \<lparr> hooks = [0x100 \<mapsto> (\<lambda>s. raise (External ''hook'') s)], disasm = (\<lambda>b a t. Inr []),
       attrs = sim_attrs \<rparr>"

text \<open>A memory proxy with a registered HLE symbol, on a device whose every call fails.\<close>

abbreviation failing_hle_memory :: memory where
  "failing_hle_memory \<equiv>
     (SimARMMemory \<lparr> calls = [], answer = (\<lambda>h c. Inl (External ''transport'')),
                     answer_bytes = (\<lambda>h c. Inr []) \<rparr> None)
       \<lparr> hle_symbols := Some [''hle_00000100'' \<mapsto> 0x2000] \<rparr>"

text \<open>The same with a symbol table from \<open>hle_init\<close>, on a device that answers every call with 5.\<close>

abbreviation answering_hle_memory :: memory where
  "answering_hle_memory \<equiv>
     snd (hle_init (\<lambda>dev handlers. ok [''hle_00000100'' \<mapsto> 0x2000] dev)
            (SimARMMemory \<lparr> calls = [], answer = (\<lambda>h c. Inr 5), answer_bytes = (\<lambda>h c. Inr []) \<rparr> None))"

abbreviation plain_nop :: instr where
  "plain_nop \<equiv> \<lparr> address = 0x100, next_address = 0x104, op = ''nop'', args = [], hle = None \<rparr>"

abbreviation tagged_nop :: instr where
  "tagged_nop \<equiv>
     \<lparr> address = 0x100, next_address = 0x104, op = ''nop'', args = [], hle = Some ''hle_00000100'' \<rparr>"

abbreviation unknown_op :: instr where
  "unknown_op \<equiv> \<lparr> address = 0x100, next_address = 0x104, op = ''frob'', args = [], hle = None \<rparr>"

text \<open>A branch whose target does not parse, and a load through \<open>r1\<close>.\<close>

abbreviation bad_branch :: instr where
  "bad_branch \<equiv> \<lparr> address = 0x100, next_address = 0x104, op = ''b'', args = ''zzz'', hle = None \<rparr>"

abbreviation ldr_r0_r1 :: instr where
  "ldr_r0_r1 \<equiv>
     \<lparr> address = 0x100, next_address = 0x104, op = ''ldr'', args = ''r0, [r1]'', hle = None \<rparr>"

section \<open>Results and frames\<close>

lemma bnd_simps [simp]:
  "bnd (Inl e, s) f = (Inl e, s)" "bnd (Inr v, s) f = f v s"
  "bnd (ok v s) f = f v s" "bnd (raise e s) f = (Inl e, s)"
  by (simp_all add: bnd_def ok_def raise_def)

text \<open>What logging and the device leave alone.\<close>

lemma log_store_frame [simp]:
  "rle (log_store a d sz msg m) = rle m" "device (log_store a d sz msg m) = device m"
  "local_data (log_store a d sz msg m) = local_data m"
  "local_addresses (log_store a d sz msg m) = local_addresses m"
  "skip_stores (log_store a d sz msg m) = skip_stores m"
  by (simp_all add: log_store_def split: option.splits)

lemma log_fill_frame [simp]:
  "rle (log_fill a d c sz m) = rle m" "device (log_fill a d c sz m) = device m"
  "local_data (log_fill a d c sz m) = local_data m"
  "local_addresses (log_fill a d c sz m) = local_addresses m"
  by (simp_all add: log_fill_def split: option.splits)

lemma log_load_frame [simp]:
  "rle (log_load a d sz m) = rle m" "device (log_load a d sz m) = device m"
  "local_data (log_load a d sz m) = local_data m"
  "local_addresses (log_load a d sz m) = local_addresses m"
  by (simp_all add: log_load_def split: option.splits)

lemma log_prefetch_frame [simp]:
  "rle (log_prefetch a m) = rle m" "device (log_prefetch a m) = device m"
  "local_data (log_prefetch a m) = local_data m"
  "local_addresses (log_prefetch a m) = local_addresses m"
  by (simp_all add: log_prefetch_def split: option.splits)

lemma dev_int_frame [simp]:
  "rle (snd (dev_int c m)) = rle m"
  "local_data (snd (dev_int c m)) = local_data m"
  "local_addresses (snd (dev_int c m)) = local_addresses m"
  "calls (device (snd (dev_int c m))) = calls (device m) @ [c]"
  "answer (device (snd (dev_int c m))) = answer (device m)"
  "fst (dev_int c m) = answer (device m) (calls (device m)) c"
  by (simp_all add: dev_int_def)

lemma check_address_snd [simp]: "snd (check_address a m) = m"
  by (simp add: check_address_def ok_def raise_def)

lemma frame_bnd: "(\<And>v s. g (snd (f v s)) = g s) \<Longrightarrow> g (snd (bnd r f)) = g (snd r)"
  by (cases r; cases "fst r") (auto simp: bnd_def)

lemma snd_ok [simp]: "snd (ok v s) = s" and snd_raise [simp]: "snd (raise e s) = s"
  and fst_ok [simp]: "fst (ok v s) = Inr v" and fst_raise [simp]: "fst (raise e s) = Inl e"
  by (simp_all add: ok_def raise_def)

lemma seek_snd [simp]: "snd (seek a s) = s"
  by (simp add: seek_def)

lemma seek_ok [simp]: "0 \<le> a \<Longrightarrow> a < 2 ^ 63 \<Longrightarrow> seek a s = (Inr (nat a), s)"
  by (simp add: seek_def ok_def)

lemma seek_high [simp]: "2 ^ 63 \<le> a \<Longrightarrow> seek a s = (Inl OverflowError, s)"
  by (simp add: seek_def raise_def)

lemma seek_fails: "a < 0 \<or> 2 ^ 63 \<le> a \<Longrightarrow> \<exists>e. seek a s = (Inl e, s)"
  by (auto simp add: seek_def raise_def)

lemma post_rle_loop_frame:
  assumes dev: "\<And>c m. g (snd (dev_int c m)) = g m"
      and lg: "\<And>a d sz msg m. g (log_store a d sz msg m) = g m"
  shows "g (snd (post_rle_loop n a p sz m)) = g m"
proof (induction n arbitrary: a m)
  case 0
  show ?case by simp
next
  case (Suc n)
  show ?case
    by (simp add: frame_bnd Suc dev lg)
qed

lemma post_rle_store_frame:
  assumes dev: "\<And>c m. g (snd (dev_int c m)) = g m"
      and lg: "\<And>a d sz msg m. g (log_store a d sz msg m) = g m"
      and lf: "\<And>a d c sz m. g (log_fill a d c sz m) = g m"
  shows "g (snd (post_rle_store r m)) = g m"
  by (simp add: post_rle_store_def frame_bnd post_rle_loop_frame dev lg lf
           split: prod.splits option.splits)

lemma post_rle_store_rle [simp]: "rle (snd (post_rle_store r m)) = rle m"
  by (rule post_rle_store_frame) simp_all

lemma post_rle_store_local_data [simp]: "local_data (snd (post_rle_store r m)) = local_data m"
  by (rule post_rle_store_frame) simp_all

lemma post_rle_store_local_addresses [simp]:
  "local_addresses (snd (post_rle_store r m)) = local_addresses m"
  by (rule post_rle_store_frame) simp_all

lemma post_rle_store_answer [simp]:
  "answer (device (snd (post_rle_store r m))) = answer (device m)"
  by (rule post_rle_store_frame [where g = "\<lambda>m. answer (device m)"]) simp_all

lemma flush_rle [simp]: "rle (snd (flush m)) = RunEncoder"
  by (simp add: flush_def rle_flush_def RunEncoder_def)

lemma flush_frame [simp]:
  "local_data (snd (flush m)) = local_data m"
  "local_addresses (snd (flush m)) = local_addresses m"
  "answer (device (snd (flush m))) = answer (device m)"
  by (simp_all add: flush_def rle_flush_def)

lemma flush_empty: "rle m = RunEncoder \<Longrightarrow> flush m = (Inr (), m)"
  by (simp add: flush_def rle_flush_def RunEncoder_def post_rle_store_def ok_def)

lemma present_rle_update [simp]: "present n a (m\<lparr> rle := e \<rparr>) = present n a m"
  by (simp add: present_def)

lemma store_remote_local_data [simp]: "local_data (snd (store_remote a d sz m)) = local_data m"
  by (simp add: store_remote_def split: option.splits prod.splits)

lemma inv_bnd: "P (snd r) \<Longrightarrow> (\<And>v s. P s \<Longrightarrow> P (snd (f v s))) \<Longrightarrow> P (snd (bnd r f))"
  by (cases r; cases "fst r") (auto simp: bnd_def)

lemma dev_bytes_frame [simp]:
  "rle (snd (dev_bytes c m)) = rle m"
  "answer (device (snd (dev_bytes c m))) = answer (device m)"
  "calls (device (snd (dev_bytes c m))) = calls (device m) @ [c]"
  by (simp_all add: dev_bytes_def)

lemma snd_from_result [simp]: "snd (from_result r s) = s"
  by (simp add: from_result_def)

lemma local_ram_frame [simp]:
  "rle (snd (local_ram b e m)) = rle m"
  "device (snd (local_ram b e m)) = device m"
  by (simp_all add: local_ram_def frame_bnd)

lemma fetch_local_data_rle [simp]: "rle (snd (fetch_local_data a sz m)) = rle m"
  by (simp add: fetch_local_data_def frame_bnd)

lemma fetch_local_data_calls:
  "calls (device (snd (fetch_local_data a sz m))) = calls (device m) @ [ReadBlock a sz]"
proof -
  have "calls (device (snd (fetch_local_data a sz m)))
          = calls (device (snd (dev_bytes (ReadBlock a sz) m)))"
    unfolding fetch_local_data_def
    by (rule frame_bnd [where g = "\<lambda>m. calls (device m)"]) (simp add: frame_bnd)
  then show ?thesis by simp
qed

lemma local_data_available_snd [simp]: "snd (local_data_available a n m) = m"
  by (simp add: local_data_available_def Let_def frame_bnd)

text \<open>The flash prefetch, and what a load or fetch does around it.\<close>

lemma bnd_assoc: "bnd (bnd r f) g = bnd r (\<lambda>v s. bnd (f v s) g)"
  by (cases r; cases "fst r") (auto simp: bnd_def)

lemma local_data_available_ok:
  "0 \<le> a \<Longrightarrow> a < 2 ^ 63 \<Longrightarrow> \<exists>v. local_data_available a n m = (Inr v, m)"
  by (simp add: local_data_available_def Let_def ok_def)

lemma local_data_available_fails:
  "a < 0 \<or> 2 ^ 63 \<le> a \<Longrightarrow> \<exists>e. local_data_available a n m = (Inl e, m)"
  using seek_fails [of a m] by (auto simp: local_data_available_def)

lemma flash_prefetch_hint_quiet:
  assumes "\<not> prefetch_due a m"
  shows "snd (flash_prefetch_hint a m) = m"
    and "0 \<le> a \<Longrightarrow> a < 2 ^ 63 \<Longrightarrow> \<exists>v. flash_prefetch_hint a m = (Inr v, m)"
    and "a < 0 \<or> 2 ^ 63 \<le> a \<Longrightarrow> \<exists>e. flash_prefetch_hint a m = (Inl e, m)"
proof -
  obtain r where r: "local_data_available a 0x100 m = (r, m)"
    using local_data_available_snd [of a "0x100" m] by (cases "local_data_available a 0x100 m") simp
  show "snd (flash_prefetch_hint a m) = m"
    using assms r by (cases r) (auto simp: flash_prefetch_hint_def prefetch_due_def)
  show "\<exists>v. flash_prefetch_hint a m = (Inr v, m)" if "0 \<le> a" "a < 2 ^ 63"
    using assms r local_data_available_ok [OF that, of "0x100" m]
    by (auto simp: flash_prefetch_hint_def prefetch_due_def ok_def)
  show "\<exists>e. flash_prefetch_hint a m = (Inl e, m)" if "a < 0 \<or> 2 ^ 63 \<le> a"
    using local_data_available_fails [OF that, of "0x100" m]
    by (auto simp: flash_prefetch_hint_def)
qed

lemma flash_prefetch_hint_due:
  assumes "prefetch_due a m"
  shows "flash_prefetch_hint a m = bnd (flush m) (\<lambda>_ m. fetch_local_data a 0x100 (log_prefetch a m))"
proof -
  obtain r where r: "local_data_available a 0x100 m = (r, m)"
    using local_data_available_snd [of a "0x100" m] by (cases "local_data_available a 0x100 m") simp
  show ?thesis
    using assms r by (cases r) (auto simp: flash_prefetch_hint_def prefetch_due_def)
qed

lemma flushed_first_bnd:
  assumes k: "\<And>m1. rle m1 = RunEncoder \<Longrightarrow>
                rle (snd (k m1)) = RunEncoder
                \<and> (\<exists>later. calls (device (snd (k m1))) = calls (device m1) @ later \<and> set later \<subseteq> R)"
  shows "flushed_first R m (snd (bnd (flush m) (\<lambda>_. k)))"
proof -
  obtain r m1 where f: "flush m = (r, m1)" by (cases "flush m")
  have e1: "rle m1 = RunEncoder" using flush_rle [of m] f by simp
  show ?thesis
  proof (cases r)
    case (Inl e)
    with f e1 show ?thesis by (simp add: flushed_first_def)
  next
    case (Inr u)
    from k [OF e1] obtain later where
      "rle (snd (k m1)) = RunEncoder" "calls (device (snd (k m1))) = calls (device m1) @ later"
      "set later \<subseteq> R" by blast
    with f Inr show ?thesis by (simp add: flushed_first_def)
  qed
qed

lemma hinted_flushed_first:
  assumes range: "0 \<le> a" "a < 2 ^ 63"
      and miss: "\<not> hit m \<or> prefetch_due a m"
      and frame: "\<And>m m'. local_addresses m' = local_addresses m \<Longrightarrow> hit m' = hit m"
      and dev: "\<And>m. rle (snd (dev m)) = rle m
                  \<and> (\<exists>later. calls (device (snd (dev m))) = calls (device m) @ later \<and> set later \<subseteq> R)"
      and loc: "\<And>m. snd (loc m) = m"
  shows "flushed_first (insert (ReadBlock a 0x100) R) m
           (snd (bnd (flash_prefetch_hint a m)
                  (\<lambda>_ m. if hit m then loc m else bnd (flush m) (\<lambda>_. dev))))"
proof -
  let ?body = "\<lambda>m. if hit m then loc m else bnd (flush m) (\<lambda>_. dev)"
  have body: "rle (snd (?body m1)) = RunEncoder
              \<and> (\<exists>later. calls (device (snd (?body m1))) = calls (device m1) @ later \<and> set later \<subseteq> R)"
    if "rle m1 = RunEncoder" for m1
    using that dev [of m1] by (simp add: flush_empty loc)
  show ?thesis
  proof (cases "prefetch_due a m")
    case True
    let ?k = "\<lambda>m1. bnd (fetch_local_data a 0x100 (log_prefetch a m1)) (\<lambda>_. ?body)"
    have "rle (snd (?k m1)) = RunEncoder
           \<and> (\<exists>later. calls (device (snd (?k m1))) = calls (device m1) @ later
                  \<and> set later \<subseteq> insert (ReadBlock a 0x100) R)"
      if e1: "rle m1 = RunEncoder" for m1
    proof -
      obtain r m2 where p: "fetch_local_data a 0x100 (log_prefetch a m1) = (r, m2)"
        by (cases "fetch_local_data a 0x100 (log_prefetch a m1)")
      have e2: "rle m2 = RunEncoder"
        using fetch_local_data_rle [of a "0x100" "log_prefetch a m1"] p e1 by simp
      have c2: "calls (device m2) = calls (device m1) @ [ReadBlock a 0x100]"
        using fetch_local_data_calls [of a "0x100" "log_prefetch a m1"] p by simp
      show ?thesis
      proof (cases r)
        case (Inl e)
        with p e2 c2 show ?thesis by simp
      next
        case (Inr n)
        from body [OF e2] obtain later where
          "rle (snd (?body m2)) = RunEncoder"
          "calls (device (snd (?body m2))) = calls (device m2) @ later" "set later \<subseteq> R"
          by blast
        with p Inr c2 show ?thesis by auto
      qed
    qed
    then have "flushed_first (insert (ReadBlock a 0x100) R) m (snd (bnd (flush m) (\<lambda>_. ?k)))"
      by (rule flushed_first_bnd)
    then show ?thesis
      by (simp add: flash_prefetch_hint_due [OF True] bnd_assoc)
  next
    case False
    then have nh: "\<not> hit m" using miss by simp
    obtain v where h: "flash_prefetch_hint a m = (Inr v, m)"
      using flash_prefetch_hint_quiet(2) [OF False range] by blast
    have "flushed_first (insert (ReadBlock a 0x100) R) m (snd (bnd (flush m) (\<lambda>_. dev)))"
    proof (rule flushed_first_bnd)
      fix m1 :: memory
      assume e1: "rle m1 = RunEncoder"
      from dev [of m1] e1
      show "rle (snd (dev m1)) = RunEncoder
            \<and> (\<exists>later. calls (device (snd (dev m1))) = calls (device m1) @ later
                   \<and> set later \<subseteq> insert (ReadBlock a 0x100) R)"
        by auto
    qed
    with h nh show ?thesis by simp
  qed
qed

lemma hinted_hit:
  assumes "\<not> prefetch_due a m" and "hit m \<or> a < 0 \<or> 2 ^ 63 \<le> a" and loc: "\<And>m. snd (loc m) = m"
  shows "snd (bnd (flash_prefetch_hint a m)
                  (\<lambda>_ m. if hit m then loc m else dev m)) = m"
proof (cases "a < 0 \<or> 2 ^ 63 \<le> a")
  case True
  then obtain e where "flash_prefetch_hint a m = (Inl e, m)"
    using flash_prefetch_hint_quiet(3) [OF assms(1)] by blast
  then show ?thesis by simp
next
  case False
  then obtain v where "flash_prefetch_hint a m = (Inr v, m)"
    using flash_prefetch_hint_quiet(2) [OF assms(1)] by auto
  with False assms(2) show ?thesis by (simp add: loc)
qed

lemma load_hit:
  "\<not> prefetch_due a m \<Longrightarrow> present 4 a m \<or> a < 0 \<or> 2 ^ 63 \<le> a \<Longrightarrow> snd (load a m) = m"
  unfolding load_def
  by (rule hinted_hit [where hit = "\<lambda>m. present 4 a m"]) simp_all

lemma load_half_hit:
  "\<not> prefetch_due a m \<Longrightarrow> present 2 a m \<or> a < 0 \<or> 2 ^ 63 \<le> a \<Longrightarrow> snd (load_half a m) = m"
  unfolding load_half_def
  by (rule hinted_hit [where hit = "\<lambda>m. present 2 a m"]) simp_all

lemma load_byte_hit:
  "\<not> prefetch_due a m \<Longrightarrow> present 1 a m \<or> a < 0 \<or> 2 ^ 63 \<le> a \<Longrightarrow> snd (load_byte a m) = m"
  unfolding load_byte_def
  by (rule hinted_hit [where hit = "\<lambda>m. present 1 a m"]) (simp_all split: list.splits)

lemma load_miss:
  assumes "0 \<le> a" "a < 2 ^ 63" "\<not> present 4 a m \<or> prefetch_due a m"
  shows "flushed_first {ReadBlock a 0x100, Peek a} m (snd (load a m))"
  unfolding load_def
  by (rule hinted_flushed_first [where hit = "\<lambda>m. present 4 a m", OF assms])
     (simp_all add: present_def frame_bnd)

lemma two_reads:
  assumes k: "\<And>lo hi m. calls (device (snd (k lo hi m))) = calls (device m)"
  shows "\<exists>later. calls (device (snd (bnd (dev_int c m) (\<lambda>lo m. bnd (dev_int c' m) (k lo)))))
                   = calls (device m) @ later \<and> set later \<subseteq> {c, c'}"
proof -
  obtain r m1 where d: "dev_int c m = (r, m1)" by (cases "dev_int c m")
  have c1: "calls (device m1) = calls (device m) @ [c]"
    using dev_int_frame(4) [of c m] d by simp
  show ?thesis
  proof (cases r)
    case (Inl e)
    with d c1 show ?thesis by simp
  next
    case (Inr lo)
    have "calls (device (snd (bnd (dev_int c' m1) (k lo)))) = calls (device m1) @ [c']"
      using frame_bnd [where g = "\<lambda>m. calls (device m)" and f = "k lo" and r = "dev_int c' m1"] k
      by simp
    with d Inr c1 show ?thesis by simp
  qed
qed

lemma load_half_miss:
  assumes "0 \<le> a" "a < 2 ^ 63" "\<not> present 2 a m \<or> prefetch_due a m"
  shows "flushed_first {ReadBlock a 0x100, PeekByte a, PeekByte (a + 1)} m (snd (load_half a m))"
  unfolding load_half_def
proof (rule hinted_flushed_first [where hit = "\<lambda>m. present 2 a m", OF assms])
  fix m :: memory
  let ?d = "bnd (dev_int (PeekByte a) m) (\<lambda>lo m. bnd (dev_int (PeekByte (a + 1)) m) (\<lambda>hi m.
              (let d = lo OR push_bit 8 hi in
               bnd (check_address a (log_load a d SzHalf m)) (\<lambda>_ m. ok d m))))"
  have "rle (snd ?d) = rle m"
    by (simp add: frame_bnd Let_def)
  moreover have "\<exists>later. calls (device (snd ?d)) = calls (device m) @ later
                   \<and> set later \<subseteq> {PeekByte a, PeekByte (a + 1)}"
    by (rule two_reads) (simp add: frame_bnd Let_def)
  ultimately show "rle (snd ?d) = rle m
        \<and> (\<exists>later. calls (device (snd ?d)) = calls (device m) @ later
               \<and> set later \<subseteq> {PeekByte a, PeekByte (a + 1)})"
    by simp
qed (simp_all add: present_def)

lemma load_byte_miss:
  assumes "0 \<le> a" "a < 2 ^ 63" "\<not> present 1 a m \<or> prefetch_due a m"
  shows "flushed_first {ReadBlock a 0x100, PeekByte a} m (snd (load_byte a m))"
  unfolding load_byte_def
  by (rule hinted_flushed_first [where hit = "\<lambda>m. present 1 a m", OF assms])
     (simp_all add: present_def frame_bnd split: list.splits)

lemma load_assembly_frame [simp]:
  "rle (load_assembly ls t m) = rle m" "device (load_assembly ls t m) = device m"
  by (induction ls t m rule: load_assembly.induct) (simp_all add: Let_def)

lemma lookup_snd [simp]: "snd (lookup d k s) = s"
  by (simp add: lookup_def split: option.splits)

lemma hint_reads:
  assumes e: "rle m = RunEncoder"
  shows "rle (snd (flash_prefetch_hint a m)) = RunEncoder
         \<and> (\<exists>later. calls (device (snd (flash_prefetch_hint a m))) = calls (device m) @ later
                \<and> set later \<subseteq> {ReadBlock a 0x100})"
proof (cases "prefetch_due a m")
  case True
  have "flash_prefetch_hint a m = fetch_local_data a 0x100 (log_prefetch a m)"
    by (simp add: flash_prefetch_hint_due [OF True] flush_empty [OF e])
  then show ?thesis
    using e by (simp add: fetch_local_data_calls)
next
  case False
  then show ?thesis using e by (simp add: flash_prefetch_hint_quiet(1))
qed

lemma fetch_hit: "instructions m (icache_key a t) = Some i \<Longrightarrow> fetch d a t m = (Inr i, m)"
  by (simp add: fetch_def ok_def)

lemma fetch_high:
  "instructions m (icache_key a t) = None \<Longrightarrow> 0x05000000 \<le> a \<Longrightarrow> fetch d a t m = (Inl IndexError, m)"
  by (simp add: fetch_def check_address_def raise_def)

lemma fetch_miss:
  assumes "instructions m (icache_key a t) = None" "a < 0x05000000"
  shows "flushed_first {ReadBlock a 0x100} m (snd (fetch d a t m))"
proof -
  let ?k = "\<lambda>m. bnd (flash_prefetch_hint a m) (\<lambda>block_size m.
         if \<not> block_size \<ge> 8 then raise AssertionError m
         else bnd (from_result (d (bio_read (local_data m) (nat a) (nat block_size)) a t) m)
                (\<lambda>lines m. ok () (load_assembly lines t m)))"
  have "snd (fetch d a t m) = snd (load_instruction d a t m)"
    using assms by (simp add: fetch_def check_address_def ok_def frame_bnd)
  also have "\<dots> = snd (bnd (flush m) (\<lambda>_. ?k))"
    by (simp add: load_instruction_def)
  finally have eq: "snd (fetch d a t m) = snd (bnd (flush m) (\<lambda>_. ?k))" .
  have "flushed_first {ReadBlock a 0x100} m (snd (bnd (flush m) (\<lambda>_. ?k)))"
  proof (rule flushed_first_bnd)
    fix m1 :: memory
    assume e1: "rle m1 = RunEncoder"
    have "rle (snd (?k m1)) = rle (snd (flash_prefetch_hint a m1))"
      by (rule frame_bnd) (simp add: frame_bnd)
    moreover have "calls (device (snd (?k m1))) = calls (device (snd (flash_prefetch_hint a m1)))"
      by (rule frame_bnd [where g = "\<lambda>m. calls (device m)"]) (simp add: frame_bnd)
    ultimately show "rle (snd (?k m1)) = RunEncoder
          \<and> (\<exists>later. calls (device (snd (?k m1))) = calls (device m1) @ later
                 \<and> set later \<subseteq> {ReadBlock a 0x100})"
      using hint_reads [OF e1, of a] by simp
  qed
  with eq show ?thesis by simp
qed

text \<open>Loads from the shadow, and loads above the ceiling.\<close>

lemma not_due_high: "0x200000 \<le> a \<Longrightarrow> \<not> prefetch_due a m"
  by (simp add: prefetch_due_def split: sum.splits)

lemma hint_high:
  "0x200000 \<le> a \<Longrightarrow> a < 2 ^ 63 \<Longrightarrow> \<exists>v. flash_prefetch_hint a m = (Inr v, m)"
  using flash_prefetch_hint_quiet(2) [OF not_due_high, of a m] by simp

lemma length_bio_read: "length (bio_read b p n) = min (p + n) (bio_len b) - p"
  by (simp add: bio_read_def)

lemma unpack_read:
  "0 < n \<Longrightarrow> unpack n (bio_read b p n)
     = (if p + n \<le> bio_len b then Inr (le_int (bio_read b p n)) else Inl StructError)"
  by (auto simp: unpack_def length_bio_read)

lemma read_one: "bio_read b p (Suc 0) = (if p < bio_len b then [bio_at b p] else [])"
  by (simp add: bio_read_def upt_rec)

lemma load_shadow:
  assumes "\<not> prefetch_due a m" "0 \<le> a" "a < 2 ^ 63" "present 4 a m"
  shows "load a m = (if nat a + 4 \<le> bio_len (local_data m)
                     then Inr (le_int (bio_read (local_data m) (nat a) 4)) else Inl StructError, m)"
proof -
  obtain v where "flash_prefetch_hint a m = (Inr v, m)"
    using flash_prefetch_hint_quiet(2) [OF assms(1-3)] by blast
  with assms(4) show ?thesis
    by (simp add: load_def from_result_def unpack_read)
qed

lemma load_half_shadow:
  assumes "\<not> prefetch_due a m" "0 \<le> a" "a < 2 ^ 63" "present 2 a m"
  shows "load_half a m = (if nat a + 2 \<le> bio_len (local_data m)
                     then Inr (le_int (bio_read (local_data m) (nat a) 2)) else Inl StructError, m)"
proof -
  obtain v where "flash_prefetch_hint a m = (Inr v, m)"
    using flash_prefetch_hint_quiet(2) [OF assms(1-3)] by blast
  with assms(4) show ?thesis
    by (simp add: load_half_def from_result_def unpack_read)
qed

lemma load_byte_shadow:
  assumes "\<not> prefetch_due a m" "0 \<le> a" "a < 2 ^ 63" "present 1 a m"
  shows "load_byte a m = (if nat a < bio_len (local_data m)
                     then Inr (uint (bio_at (local_data m) (nat a))) else Inl TypeError, m)"
proof -
  obtain v where "flash_prefetch_hint a m = (Inr v, m)"
    using flash_prefetch_hint_quiet(2) [OF assms(1-3)] by blast
  with assms(4) show ?thesis
    by (simp add: load_byte_def read_one ok_def raise_def)
qed

lemma load_high:
  assumes hi: "0x05000000 \<le> a" and lt: "a < 2 ^ 63" and np: "\<not> present 4 a m"
  shows "raised (load a m)"
    and "fst (flush m) = Inr () \<Longrightarrow> \<forall>h c. \<exists>d. answer (device m) h c = Inr d \<Longrightarrow>
         fst (load a m) = Inl IndexError
         \<and> calls (device (snd (load a m))) = calls (device (snd (flush m))) @ [Peek a]"
    and "fst (flush m) = Inl e \<Longrightarrow> load a m = (Inl e, snd (flush m))"
proof -
  obtain v where h: "flash_prefetch_hint a m = (Inr v, m)" using hint_high [OF _ lt] hi by force
  obtain r m1 where f: "flush m = (r, m1)" by (cases "flush m")
  have ans: "answer (device m1) = answer (device m)"
    using flush_frame(3) [of m] f by simp
  show "raised (load a m)"
    using hi np h f
    by (cases r; cases "answer (device m1) (calls (device m1)) (Peek a)")
       (simp_all add: load_def raised_def dev_int_def check_address_def raise_def)
  show "load a m = (Inl e, snd (flush m))" if "fst (flush m) = Inl e"
    using that np h f by (simp add: load_def)
  assume "fst (flush m) = Inr ()" and ok: "\<forall>h c. \<exists>d. answer (device m) h c = Inr d"
  then have r: "r = Inr ()" using f by simp
  obtain d where "answer (device m1) (calls (device m1)) (Peek a) = Inr d"
    using ok ans by metis
  then show "fst (load a m) = Inl IndexError
         \<and> calls (device (snd (load a m))) = calls (device (snd (flush m))) @ [Peek a]"
    using hi np h f r
    by (simp add: load_def dev_int_def check_address_def raise_def)
qed

lemma load_byte_high:
  assumes hi: "0x05000000 \<le> a" and lt: "a < 2 ^ 63" and np: "\<not> present 1 a m"
  shows "raised (load_byte a m)"
    and "fst (flush m) = Inr () \<Longrightarrow> \<forall>h c. \<exists>d. answer (device m) h c = Inr d \<Longrightarrow>
         fst (load_byte a m) = Inl IndexError
         \<and> calls (device (snd (load_byte a m))) = calls (device (snd (flush m))) @ [PeekByte a]"
    and "fst (flush m) = Inl e \<Longrightarrow> load_byte a m = (Inl e, snd (flush m))"
proof -
  obtain v where h: "flash_prefetch_hint a m = (Inr v, m)" using hint_high [OF _ lt] hi by force
  obtain r m1 where f: "flush m = (r, m1)" by (cases "flush m")
  have ans: "answer (device m1) = answer (device m)"
    using flush_frame(3) [of m] f by simp
  show "raised (load_byte a m)"
    using hi np h f
    by (cases r; cases "answer (device m1) (calls (device m1)) (PeekByte a)")
       (simp_all add: load_byte_def raised_def dev_int_def check_address_def raise_def)
  show "load_byte a m = (Inl e, snd (flush m))" if "fst (flush m) = Inl e"
    using that np h f by (simp add: load_byte_def)
  assume "fst (flush m) = Inr ()" and ok: "\<forall>h c. \<exists>d. answer (device m) h c = Inr d"
  then have r: "r = Inr ()" using f by simp
  obtain d where "answer (device m1) (calls (device m1)) (PeekByte a) = Inr d"
    using ok ans by metis
  then show "fst (load_byte a m) = Inl IndexError
         \<and> calls (device (snd (load_byte a m))) = calls (device (snd (flush m))) @ [PeekByte a]"
    using hi np h f r
    by (simp add: load_byte_def dev_int_def check_address_def raise_def)
qed

lemma load_half_high:
  assumes hi: "0x05000000 \<le> a" and lt: "a < 2 ^ 63" and np: "\<not> present 2 a m"
  shows "raised (load_half a m)"
    and "fst (flush m) = Inr () \<Longrightarrow> \<forall>h c. \<exists>d. answer (device m) h c = Inr d \<Longrightarrow>
         fst (load_half a m) = Inl IndexError
         \<and> calls (device (snd (load_half a m)))
             = calls (device (snd (flush m))) @ [PeekByte a, PeekByte (a + 1)]"
    and "fst (flush m) = Inl e \<Longrightarrow> load_half a m = (Inl e, snd (flush m))"
proof -
  obtain v where h: "flash_prefetch_hint a m = (Inr v, m)" using hint_high [OF _ lt] hi by force
  obtain r m1 where f: "flush m = (r, m1)" by (cases "flush m")
  have ans: "answer (device m1) = answer (device m)"
    using flush_frame(3) [of m] f by simp
  show "raised (load_half a m)"
    using hi np h f
    by (cases r; cases "answer (device m1) (calls (device m1)) (PeekByte a)";
        cases "answer (device m1) (calls (device m1) @ [PeekByte a]) (PeekByte (a + 1))")
       (simp_all add: load_half_def raised_def dev_int_def check_address_def raise_def Let_def)
  show "load_half a m = (Inl e, snd (flush m))" if "fst (flush m) = Inl e"
    using that np h f by (simp add: load_half_def)
  assume "fst (flush m) = Inr ()" and ok: "\<forall>h c. \<exists>d. answer (device m) h c = Inr d"
  then have r: "r = Inr ()" using f by simp
  obtain d where d: "answer (device m1) (calls (device m1)) (PeekByte a) = Inr d"
    using ok ans by metis
  obtain d' where "answer (device m1) (calls (device m1) @ [PeekByte a]) (PeekByte (a + 1)) = Inr d'"
    using ok ans by metis
  with d show "fst (load_half a m) = Inl IndexError
         \<and> calls (device (snd (load_half a m)))
             = calls (device (snd (flush m))) @ [PeekByte a, PeekByte (a + 1)]"
    using hi np h f r
    by (simp add: load_half_def dev_int_def check_address_def raise_def Let_def)
qed

text \<open>The constructor: what it returns is \<open>initial_sim\<close> over a proxy with a symbol table.\<close>

lemma SimARM_result:
  "SimARM compile_library m = (Inr s, m') \<Longrightarrow> s = initial_sim m' \<and> hle_symbols m' \<noteq> None"
  by (auto simp: SimARM_def hle_init_def bnd_def ok_def raise_def split: prod.splits sum.splits)

lemma SimARM_raises:
  "fst (compile_library (device m) (hle_handlers m)) = Inl e \<Longrightarrow>
   fst (SimARM compile_library m) = Inl e"
  by (auto simp: SimARM_def hle_init_def bnd_def ok_def raise_def split: prod.splits sum.splits)

section \<open>Evaluating the model\<close>

lemma replicate_num [simp]: "replicate (numeral n) x = x # replicate (pred_numeral n) x"
  by (simp add: numeral_eq_Suc)

lemmas mem_defs = SimARMMemory_def BytesIO_def RunEncoder_def local_ram_def store_def store_half_def
  store_local_def store_remote_def present_def bio_read_def bio_write_def pack_def le_bytes_def
  unpack_def le_int_def load_def load_half_def load_byte_def flash_prefetch_hint_def
  local_data_available_def from_result_def rle_write_def rle_flush_def post_rle_store_def
  flush_def check_address_def dev_int_def dev_bytes_def seek_def fetch_local_data_def

lemmas parse_defs = shifter_def py_split_def reg_or_literal_def bind_r_def reg_number_def int0_def
  py_int0_def unsigned_literal_def digit_val_def is_space_def unpack2_def dstpc_def
  reg_numbers_def reg_names_def alt_names_def map_add_def

lemma attrs_b: "sim_attrs ''op_b'' = Some op_b"
  by (simp add: sim_attrs_def op_methods_def generate_condition_codes_def map_add_def)

lemma attrs_nop: "sim_attrs ''op_nop'' = Some op_nop"
  by (simp add: sim_attrs_def op_methods_def generate_condition_codes_def map_add_def)

lemma attrs_ldr: "sim_attrs ''op_ldr'' = Some op_ldr"
  by (simp add: sim_attrs_def op_methods_def generate_condition_codes_def map_add_def)

lemmas step_defs = step_def step_once_def step_try_def with_memory_def fetch_def icache_key_def
  initial_sim_def reset_def SimARMMemory_def from_result_def ok_def raise_def hle_init_def

lemma attrs_frob: "sim_attrs ''op_frob'' = None"
  by (simp add: sim_attrs_def op_methods_def generate_condition_codes_def map_add_def)

lemma poised_fetch:
  "with_memory (fetch d (regs (poised m i) ! 15) (thumb (poised m i)))
     ((poised m i)\<lparr> step_count := step_count (poised m i) + 1 \<rparr>)
   = (Inr i, (poised m i)\<lparr> step_count := 1 \<rparr>)"
  by (simp add: with_memory_def fetch_def icache_key_def initial_sim_def reset_def ok_def)

lemma SimARM_example:
  "SimARM (\<lambda>dev handlers. ok Map.empty dev) fresh_memory = (Inr (initial_sim ready_memory), ready_memory)"
  by (simp add: SimARM_def hle_init_def ok_def)

lemma py_int0_examples:
  "py_int0 ''0x10'' = Some 16" "py_int0 ''42'' = Some 42" "py_int0 ''-0x2a'' = Some (- 42)"
  "py_int0 ''012'' = None" "py_int0 '' 1_000 '' = Some 1000" "py_int0 ''1__0'' = None"
  "py_int0 ''0x'' = None" "py_int0 [] = None" "py_int0 ''0'' = Some 0" "py_int0 ''00'' = Some 0"
  "py_int0 ''0x_1f'' = Some 31" "py_int0 ''0x__1'' = None" "py_int0 ''0x_'' = None" "py_int0 ''_1'' = None"
  "py_int0 ''- 1'' = None" "py_int0 ''0b101'' = Some 5" "py_int0 ''0o17'' = Some 15" "py_int0 ''1_'' = None"
  by (simp_all add: py_int0_def unsigned_literal_def digit_val_def is_space_def)

lemma py_split_examples:
  "py_splitn '', '' 1 ''r1, r0, lsl #1'' = [''r1'', ''r0, lsl #1'']"
  "py_split '' '' ''lsl #1'' = [''lsl'', ''#1'']"
  "py_splitn '', '' 1 ''r1'' = [''r1'']"
  "py_strip ''[]'' ''[r0, #4]'' = ''r0, #4''"
  by (simp_all add: py_split_def py_strip_def)

section \<open>Shifter carry (C1)\<close>

text \<open>
  The carry that \<open>lsl\<close> returns is bit \<open>32 - b\<close> of its operand, as specified; the
  result it returns is the shifted value as it is, with the bits above bit 31 still in it.
\<close>

lemma lsl_carry:
  "b AND 31 \<noteq> 0 \<Longrightarrow>
   lsl a b = (push_bit (nat (b AND 31)) a, of_bool (bit a (32 - nat (b AND 31))))"
proof -
  assume nz: "b AND 31 \<noteq> 0"
  have le: "nat (b AND 31) \<le> 32"
  proof -
    have "b AND 31 \<le> 31" by (rule AND_upper2) simp
    then show ?thesis by linarith
  qed
  have "(1::int) AND drop_bit 32 (push_bit (nat (b AND 31)) a)
        = of_bool (bit (push_bit (nat (b AND 31)) a) 32)"
    by (simp add: one_and_eq bit_iff_odd_drop_bit mod2_eq_if)
  also have "\<dots> = of_bool (bit a (32 - nat (b AND 31)))"
    using le by (simp add: bit_push_bit_iff)
  finally show ?thesis using nz by (simp add: lsl_def Let_def)
qed

text \<open>
  C1.  Executing \<open>movs r1, r0, lsl #1\<close> with \<open>r0 = 0x80000000\<close>, from any flags
  \<open>n\<close>, \<open>z\<close>, \<open>c\<close>, \<open>v\<close>: \<open>lsl\<close> returns \<open>0x100000000\<close> (not the 32-bit result \<open>0\<close>)
  with carry \<open>1\<close>; \<open>op_movs\<close> writes \<open>0\<close> to \<open>r1\<close> (the destination masks) and sets
  C, but its test \<open>r == 0\<close> sees the unmasked value and clears Z, where the scenario
  has Z = 1.
\<close>

theorem movs_lsl_zero_flag:
  "lsl 0x80000000 1 = (0x100000000, 1) \<and>
   (\<exists>f. op_movs \<lparr> address = 0, next_address = 4, op = ''movs'', args = ''r1, r0, lsl #1'', hle = None \<rparr> = Inr f \<and>
     (let s' = snd (f ((initial_sim m)\<lparr> regs := (regs (initial_sim m))[0 := 0x80000000],
                                   cpsrN := n, cpsrZ := z, cpsrC := c, cpsrV := v \<rparr>))
      in regs s' ! 1 = 0 \<and> cpsrC s' \<and> \<not> cpsrZ s'))"
  by (simp add: op_movs_def lsl_def parse_defs initial_sim_def reset_def)

text \<open>
  The sibling \<open>op_lsls\<close> masks before it tests: \<open>lsls r1, r0, #1\<close> on the same input
  sets Z.
\<close>

lemma lsls_sets_zero_flag:
  "\<exists>f. op_lsls \<lparr> address = 0, next_address = 4, op = ''lsls'', args = ''r1, r0, #1'', hle = None \<rparr> = Inr f \<and>
     (let s' = snd (f ((initial_sim m)\<lparr> regs := (regs (initial_sim m))[0 := 0x80000000] \<rparr>))
      in regs s' ! 1 = 0 \<and> cpsrC s' \<and> cpsrZ s')"
  by (simp add: op_lsls_def three_arg_def unpack3_def lsl_def parse_defs initial_sim_def reset_def
        eval_nat_numeral)

section \<open>The branch sink (C2)\<close>

text \<open>
  C2.  An instruction \<open>b 0x0\<close> at \<open>0x100\<close>, in ARM mode, found in the instruction
  cache of any memory proxy: \<open>op_b\<close> stores the target \<open>0\<close> in \<open>_branch\<close>, and the step driver's
  \<open>self._branch or instr.next_address\<close> takes \<open>next_address\<close>, so the program counter
  ends at \<open>0x104\<close>, not at the stored target.
\<close>

theorem step_branch_to_zero:
  "regs (snd (step \<lparr> hooks = Map.empty, disasm = d, attrs = sim_attrs \<rparr> 1 None
      (poised m
         \<lparr> address = 0x100, next_address = 0x104, op = ''b'', args = ''0x0'', hle = None \<rparr>))) ! 15
   = 0x104"
  by (simp add: step_defs attrs_b op_b_def bind_r_def int0_def py_int0_def unsigned_literal_def
        digit_val_def is_space_def)

text \<open>Any other stored target is taken: the same instruction with target \<open>0x200\<close>.\<close>

lemma step_branch_elsewhere:
  "regs (snd (step \<lparr> hooks = Map.empty, disasm = d, attrs = sim_attrs \<rparr> 1 None
      (poised m
         \<lparr> address = 0x100, next_address = 0x104, op = ''b'', args = ''0x200'', hle = None \<rparr>))) ! 15
   = 0x200"
  by (simp add: step_defs attrs_b op_b_def bind_r_def int0_def py_int0_def unsigned_literal_def
        digit_val_def is_space_def)

section \<open>Flushes of the write-combining buffer (C3)\<close>

text \<open>
  C3, as stated, fails.  Mark \<open>0x3000000..0x3000003\<close> as local RAM and store a word
  there (it goes to the shadow); store a word to the device address \<open>0x2000000\<close> (it
  waits in the run encoder, \<open>count = 1\<close>); then load the word at \<open>0x3000000\<close>.  The
  load is served from the shadow and returns the stored word with the run still pending:
  the count is \<open>1\<close> before and after it, and the transport has seen nothing.
\<close>

theorem shadow_load_keeps_pending_run:
  "count (rle shadowed_pending) = 1
   \<and> fst (load 0x3000000 shadowed_pending) = Inr 0x11223344
   \<and> count (rle (snd (load 0x3000000 shadowed_pending))) = 1
   \<and> calls (device (snd (load 0x3000000 shadowed_pending))) = []"
  by (simp add: mem_defs Let_def)

text \<open>
  C3, amended.  A load that is served from the shadow without a flash prefetch, or whose
  address \<open>seek\<close> refuses, leaves the memory proxy exactly as it was: it does not
  flush, and a pending run stays pending.  Every other load flushes first: the transport
  sees the pokes and fills of the pending run, and only then, and only if the flush
  succeeded, the block read of the prefetch and the peeks of the load; the run encoder is
  empty afterwards.  A fetch served from the instruction cache returns the cached
  instruction and leaves the proxy as it was; a fetch that misses the cache raises
  \<open>IndexError\<close> at once for an address from \<open>0x05000000\<close>, and otherwise flushes
  before its prefetch reads.
\<close>

theorem transport_reached_after_flush:
  "(\<not> prefetch_due a m \<and> (present 4 a m \<or> a < 0 \<or> 2 ^ 63 \<le> a) \<longrightarrow> snd (load a m) = m)
   \<and> (0 \<le> a \<and> a < 2 ^ 63 \<and> (\<not> present 4 a m \<or> prefetch_due a m) \<longrightarrow>
        flushed_first {ReadBlock a 0x100, Peek a} m (snd (load a m)))
   \<and> (\<not> prefetch_due a m \<and> (present 2 a m \<or> a < 0 \<or> 2 ^ 63 \<le> a) \<longrightarrow> snd (load_half a m) = m)
   \<and> (0 \<le> a \<and> a < 2 ^ 63 \<and> (\<not> present 2 a m \<or> prefetch_due a m) \<longrightarrow>
        flushed_first {ReadBlock a 0x100, PeekByte a, PeekByte (a + 1)} m (snd (load_half a m)))
   \<and> (\<not> prefetch_due a m \<and> (present 1 a m \<or> a < 0 \<or> 2 ^ 63 \<le> a) \<longrightarrow> snd (load_byte a m) = m)
   \<and> (0 \<le> a \<and> a < 2 ^ 63 \<and> (\<not> present 1 a m \<or> prefetch_due a m) \<longrightarrow>
        flushed_first {ReadBlock a 0x100, PeekByte a} m (snd (load_byte a m)))
   \<and> (instructions m (icache_key a t) = Some i \<longrightarrow> fetch d a t m = (Inr i, m))
   \<and> (instructions m (icache_key a t) = None \<and> 0x05000000 \<le> a \<longrightarrow>
        fetch d a t m = (Inl IndexError, m))
   \<and> (instructions m (icache_key a t) = None \<and> a < 0x05000000 \<longrightarrow>
        flushed_first {ReadBlock a 0x100} m (snd (fetch d a t m)))"
  using load_hit [of a m] load_miss [of a m] load_half_hit [of a m] load_half_miss [of a m]
    load_byte_hit [of a m] load_byte_miss [of a m]
    fetch_hit [of m a t i d] fetch_high [of m a t d] fetch_miss [of m a t d]
  by blast

text \<open>
  A run is pending for \<open>0x2000000\<close>.  Each load that misses the shadow, the load in
  flash that prefetches, and the fetch that misses the cache reach the transport after
  the pending poke and leave the encoder empty; the fetch above the ceiling, the loads
  from the shadow and the load at \<open>-1\<close> leave the proxy as it was.
\<close>

theorem transport_reached_after_flush_witness:
  "rle pending_memory = \<lparr> count = 1, key = Some (0x2000000, 7, 4) \<rparr>
   \<and> calls (device pending_memory) = []
   \<and> calls (device (snd (load 0x2000004 pending_memory))) = [Poke 0x2000000 7, Peek 0x2000004]
   \<and> rle (snd (load 0x2000004 pending_memory)) = RunEncoder
   \<and> calls (device (snd (load_half 0x2000004 pending_memory)))
       = [Poke 0x2000000 7, PeekByte 0x2000004, PeekByte 0x2000005]
   \<and> rle (snd (load_half 0x2000004 pending_memory)) = RunEncoder
   \<and> calls (device (snd (load_byte 0x2000004 pending_memory))) = [Poke 0x2000000 7, PeekByte 0x2000004]
   \<and> rle (snd (load_byte 0x2000004 pending_memory)) = RunEncoder
   \<and> calls (device (snd (load 0x100 pending_memory)))
       = [Poke 0x2000000 7, ReadBlock 0x100 0x100, Peek 0x100]
   \<and> rle (snd (load 0x100 pending_memory)) = RunEncoder
   \<and> calls (device (snd (fetch (\<lambda>b a t. Inr []) 0x2000100 False pending_memory))) = [Poke 0x2000000 7]
   \<and> rle (snd (fetch (\<lambda>b a t. Inr []) 0x2000100 False pending_memory)) = RunEncoder
   \<and> fetch (\<lambda>b a t. Inr []) 0x5000000 False pending_memory = (Inl IndexError, pending_memory)
   \<and> snd (load 0x3000000 shadowed_pending) = shadowed_pending
   \<and> snd (load_half 0x3000000 shadowed_pending) = shadowed_pending
   \<and> snd (load_byte 0x3000000 shadowed_pending) = shadowed_pending
   \<and> snd (load (- 1) pending_memory) = pending_memory"
proof -
  let ?d = "\<lambda>b a t. Inr [] :: error + instr list"
  have st: "rle pending_memory = \<lparr> count = 1, key = Some (0x2000000, 7, 4) \<rparr>"
      "calls (device pending_memory) = []"
      "calls (device (snd (flush pending_memory))) = [Poke 0x2000000 7]"
      "instructions pending_memory = Map.empty"
    by (simp_all add: mem_defs log_store_def Let_def)
  have np: "\<not> present 4 0x2000004 pending_memory" "\<not> present 2 0x2000004 pending_memory"
      "\<not> present 1 0x2000004 pending_memory" "\<not> present 4 0x100 pending_memory"
    by (simp_all add: mem_defs Let_def)
  have pr: "present 4 0x3000000 shadowed_pending" "present 2 0x3000000 shadowed_pending"
      "present 1 0x3000000 shadowed_pending" "\<not> prefetch_due 0x3000000 shadowed_pending"
      "\<not> prefetch_due (- 1) pending_memory"
    by (simp_all add: mem_defs prefetch_due_def Let_def)
  have c1: "calls (device (snd (load 0x2000004 pending_memory))) = [Poke 0x2000000 7, Peek 0x2000004]"
    by (simp add: mem_defs log_store_def log_load_def Let_def)
  have c2: "calls (device (snd (load_half 0x2000004 pending_memory)))
       = [Poke 0x2000000 7, PeekByte 0x2000004, PeekByte 0x2000005]"
    by (simp add: mem_defs log_store_def log_load_def Let_def)
  have c3: "calls (device (snd (load_byte 0x2000004 pending_memory))) = [Poke 0x2000000 7, PeekByte 0x2000004]"
    by (simp add: mem_defs log_store_def log_load_def Let_def)
  have c4: "calls (device (snd (fetch ?d 0x2000100 False pending_memory))) = [Poke 0x2000000 7]"
    by (simp add: mem_defs fetch_def load_instruction_def icache_key_def log_store_def Let_def)
  have c5: "calls (device (snd (load 0x100 pending_memory)))
       = [Poke 0x2000000 7, ReadBlock 0x100 0x100, Peek 0x100]"
    by (simp add: mem_defs log_store_def log_load_def log_prefetch_def Let_def)
  note T = transport_reached_after_flush
  have r1: "rle (snd (load 0x2000004 pending_memory)) = RunEncoder"
    using T [where a = "0x2000004" and m = pending_memory and t = False and d = ?d] np by (simp add: flushed_first_def Let_def)
  have r2: "rle (snd (load_half 0x2000004 pending_memory)) = RunEncoder"
    using T [where a = "0x2000004" and m = pending_memory and t = False and d = ?d] np by (simp add: flushed_first_def Let_def)
  have r3: "rle (snd (load_byte 0x2000004 pending_memory)) = RunEncoder"
    using T [where a = "0x2000004" and m = pending_memory and t = False and d = ?d] np by (simp add: flushed_first_def Let_def)
  have r4: "rle (snd (fetch ?d 0x2000100 False pending_memory)) = RunEncoder"
    using T [where a = "0x2000100" and m = pending_memory and t = False and d = ?d] st(4) by (simp add: flushed_first_def Let_def)
  have r5: "rle (snd (load 0x100 pending_memory)) = RunEncoder"
    using T [where a = "0x100" and m = pending_memory and t = False and d = ?d] np by (simp add: flushed_first_def Let_def)
  have r6: "fetch ?d 0x5000000 False pending_memory = (Inl IndexError, pending_memory)"
    using T [where a = "0x5000000" and m = pending_memory and t = False and d = ?d] st(4) by simp
  have h1: "snd (load 0x3000000 shadowed_pending) = shadowed_pending"
    and h2: "snd (load_half 0x3000000 shadowed_pending) = shadowed_pending"
    and h3: "snd (load_byte 0x3000000 shadowed_pending) = shadowed_pending"
    using T [where a = "0x3000000" and m = shadowed_pending and t = False and d = ?d] pr by simp_all
  have h4: "snd (load (- 1) pending_memory) = pending_memory"
    using T [where a = "- 1" and m = pending_memory and t = False and d = ?d] pr by simp
  from st(1,2) c1 r1 c2 r2 c3 r3 c5 r5 c4 r4 r6 h1 h2 h3 h4 show ?thesis
    by (intro conjI)
qed

text \<open>Neither \<open>hle_invoke\<close> nor \<open>save_state\<close> touches the run encoder.\<close>

lemma hle_invoke_keeps_run: "rle (snd (hle_invoke i r0 m)) = rle m"
  by (simp add: hle_invoke_def frame_bnd split: option.splits)

lemma save_state_keeps_memory: "snd (save_state m) = m"
  by (simp add: save_state_def)

section \<open>Fill coalescing (C5)\<close>

text \<open>
  C5.  With an empty run encoder, three word stores of one pattern \<open>p\<close> to
  \<open>0x2000000\<close>, \<open>0x2000004\<close> and \<open>0x2000008\<close> (none of them shadowed, none in the
  skip set) followed by \<open>flush\<close> add exactly one call to the transport's history,
  \<open>fill_words(0x2000000, p, 3)\<close>, and no poke.
\<close>

theorem fill_coalescing:
  assumes "rle m = RunEncoder"
    and "\<not> present 4 0x2000000 m" "\<not> present 4 0x2000004 m" "\<not> present 4 0x2000008 m"
    and "skip_stores m 0x2000000 = None" "skip_stores m 0x2000004 = None"
        "skip_stores m 0x2000008 = None"
  shows "calls (device (snd (bnd (store 0x2000000 p m) (\<lambda>_ m.
           bnd (store 0x2000004 p m) (\<lambda>_ m.
             bnd (store 0x2000008 p m) (\<lambda>_ m. flush m))))))
         = calls (device m) @ [FillWords 0x2000000 p 3]"
  using assms
  by (simp add: store_def store_remote_def rle_write_def rle_flush_def RunEncoder_def
        post_rle_store_def flush_def check_address_def frame_bnd)

theorem fill_coalescing_witness:
  "calls (device (snd (bnd (store 0x2000000 0xdeadbeef fresh_memory) (\<lambda>_ m.
           bnd (store 0x2000004 0xdeadbeef m) (\<lambda>_ m.
             bnd (store 0x2000008 0xdeadbeef m) (\<lambda>_ m. flush m))))))
         = [FillWords 0x2000000 0xdeadbeef 3]"
  using fill_coalescing [of "fresh_memory" "0xdeadbeef"]
  by (simp add: SimARMMemory_def BytesIO_def RunEncoder_def present_def bio_read_def)

text \<open>A different pattern in the middle breaks the run: three pokes, no fill.\<close>

lemma no_fill_for_mixed_patterns:
  "calls (device (snd (bnd (store 0x2000000 1 fresh_memory) (\<lambda>_ m.
           bnd (store 0x2000004 2 m) (\<lambda>_ m.
             bnd (store 0x2000008 1 m) (\<lambda>_ m. flush m))))))
         = [Poke 0x2000000 1, Poke 0x2000004 2, Poke 0x2000008 1]"
  by (simp add: mem_defs log_store_def Let_def)

text \<open>
  The same through the processor: \<open>str r0, [r1]\<close>, \<open>str r0, [r1, #4]\<close> and
  \<open>str r0, [r1, #8]\<close> with \<open>r1 = 0x2000000\<close>, then a flush.
\<close>

lemma three_str_one_fill:
  "\<exists>f1 f2 f3.
     op_str \<lparr> address = 0, next_address = 4, op = ''str'', args = ''r0, [r1]'', hle = None \<rparr> = Inr f1 \<and>
     op_str \<lparr> address = 4, next_address = 8, op = ''str'', args = ''r0, [r1, #4]'', hle = None \<rparr> = Inr f2 \<and>
     op_str \<lparr> address = 8, next_address = 12, op = ''str'', args = ''r0, [r1, #8]'', hle = None \<rparr> = Inr f3 \<and>
     calls (device (memory (snd (
       bnd (f1 ((initial_sim ready_memory)\<lparr> regs := ((regs (initial_sim ready_memory))[0 := 0xdeadbeef])[1 := 0x2000000] \<rparr>))
         (\<lambda>_ s. bnd (f2 s) (\<lambda>_ s. bnd (f3 s) (\<lambda>_ s. with_memory flush s)))))))
     = [FillWords 0x2000000 0xdeadbeef 3]"
  by (simp add: op_str_def reladdr_def py_strip_def parse_defs with_memory_def initial_sim_def reset_def
        hle_init_def mem_defs log_fill_def ok_def raise_def Let_def)

section \<open>The address check on loads (C7)\<close>

text \<open>
  C7, as stated, fails.  Once \<open>0x5000000..0x5000003\<close> is marked present and holds a
  stored word, \<open>load(0x5000000)\<close> returns that word: the shadow answers before
  \<open>check_address\<close> is reached.
\<close>

theorem shadow_load_above_ceiling:
  "fst (bnd (local_ram 0x5000000 0x5000003 fresh_memory)
        (\<lambda>_ m. bnd (store 0x5000000 0x11223344 m) (\<lambda>_ m. load 0x5000000 m)))
   = Inr 0x11223344"
  by (simp add: mem_defs Let_def)

text \<open>
  C7, amended.  Take an address \<open>a \<ge> 0x05000000\<close> (below \<open>2^63\<close>, so that
  \<open>seek\<close> accepts it).  If the bytes a load covers are not all present in the shadow,
  the load never returns a value: it raises what the flush of the pending run raises, or
  what the transport raises, and otherwise, having read the device (the peek is the call
  after the flush in the transport's history), the \<open>IndexError\<close> of
  \<open>check_address\<close>.  If the bytes are all present, the load does not reach
  \<open>check_address\<close>: it leaves the proxy as it was and returns the little-endian value
  of the shadow data, or raises \<open>struct.error\<close> (\<open>TypeError\<close> for \<open>load_byte\<close>)
  when the shadow data ends before the access does.
\<close>

theorem unshadowed_load_above_ceiling:
  assumes "0x05000000 \<le> a" and "a < 2 ^ 63"
  shows "(\<not> present 4 a m \<longrightarrow>
            raised (load a m) \<and>
            (\<forall>e. fst (flush m) = Inl e \<longrightarrow> load a m = (Inl e, snd (flush m))) \<and>
            (fst (flush m) = Inr () \<and> (\<forall>h c. \<exists>d. answer (device m) h c = Inr d) \<longrightarrow>
               fst (load a m) = Inl IndexError \<and>
               calls (device (snd (load a m))) = calls (device (snd (flush m))) @ [Peek a]))
       \<and> (present 4 a m \<longrightarrow>
            load a m = (if nat a + 4 \<le> bio_len (local_data m)
                        then Inr (le_int (bio_read (local_data m) (nat a) 4))
                        else Inl StructError, m))
       \<and> (\<not> present 2 a m \<longrightarrow>
            raised (load_half a m) \<and>
            (\<forall>e. fst (flush m) = Inl e \<longrightarrow> load_half a m = (Inl e, snd (flush m))) \<and>
            (fst (flush m) = Inr () \<and> (\<forall>h c. \<exists>d. answer (device m) h c = Inr d) \<longrightarrow>
               fst (load_half a m) = Inl IndexError \<and>
               calls (device (snd (load_half a m)))
                 = calls (device (snd (flush m))) @ [PeekByte a, PeekByte (a + 1)]))
       \<and> (present 2 a m \<longrightarrow>
            load_half a m = (if nat a + 2 \<le> bio_len (local_data m)
                             then Inr (le_int (bio_read (local_data m) (nat a) 2))
                             else Inl StructError, m))
       \<and> (\<not> present 1 a m \<longrightarrow>
            raised (load_byte a m) \<and>
            (\<forall>e. fst (flush m) = Inl e \<longrightarrow> load_byte a m = (Inl e, snd (flush m))) \<and>
            (fst (flush m) = Inr () \<and> (\<forall>h c. \<exists>d. answer (device m) h c = Inr d) \<longrightarrow>
               fst (load_byte a m) = Inl IndexError \<and>
               calls (device (snd (load_byte a m))) = calls (device (snd (flush m))) @ [PeekByte a]))
       \<and> (present 1 a m \<longrightarrow>
            load_byte a m = (if nat a < bio_len (local_data m)
                             then Inr (uint (bio_at (local_data m) (nat a)))
                             else Inl TypeError, m))"
proof -
  have nd: "\<not> prefetch_due a m" and a0: "0 \<le> a"
    using assms(1) by (simp_all add: not_due_high)
  note s = load_shadow [OF nd a0 assms(2)] load_half_shadow [OF nd a0 assms(2)]
    load_byte_shadow [OF nd a0 assms(2)]
  note h = load_high [OF assms, of m] load_half_high [OF assms, of m] load_byte_high [OF assms, of m]
  show ?thesis
    by (intro conjI impI allI; (elim conjE)?) (simp_all add: s h)
qed

text \<open>
  With a run pending for \<open>0x2000000\<close>, the loads at \<open>0x5000000\<close> poke, peek and
  raise \<open>IndexError\<close>.  After \<open>local_ram(0x5000000, 0x5000003)\<close> with nothing
  stored, they raise on the empty shadow data and the proxy is as it was.
\<close>

theorem unshadowed_load_above_ceiling_witness:
  "calls (device pending_memory) = []
   \<and> fst (load 0x5000000 pending_memory) = Inl IndexError
   \<and> calls (device (snd (load 0x5000000 pending_memory))) = [Poke 0x2000000 7, Peek 0x5000000]
   \<and> fst (load_half 0x5000000 pending_memory) = Inl IndexError
   \<and> calls (device (snd (load_half 0x5000000 pending_memory)))
       = [Poke 0x2000000 7, PeekByte 0x5000000, PeekByte 0x5000001]
   \<and> fst (load_byte 0x5000000 pending_memory) = Inl IndexError
   \<and> calls (device (snd (load_byte 0x5000000 pending_memory))) = [Poke 0x2000000 7, PeekByte 0x5000000]
   \<and> load 0x5000000 (snd (local_ram 0x5000000 0x5000003 fresh_memory))
       = (Inl StructError, snd (local_ram 0x5000000 0x5000003 fresh_memory))
   \<and> load_half 0x5000000 (snd (local_ram 0x5000000 0x5000003 fresh_memory))
       = (Inl StructError, snd (local_ram 0x5000000 0x5000003 fresh_memory))
   \<and> load_byte 0x5000000 (snd (local_ram 0x5000000 0x5000003 fresh_memory))
       = (Inl TypeError, snd (local_ram 0x5000000 0x5000003 fresh_memory))"
proof -
  let ?l = "snd (local_ram 0x5000000 0x5000003 fresh_memory)"
  have np: "\<not> present 4 0x5000000 pending_memory" "\<not> present 2 0x5000000 pending_memory"
      "\<not> present 1 0x5000000 pending_memory"
    by (simp_all add: mem_defs Let_def)
  have fl: "fst (flush pending_memory) = Inr ()"
      "calls (device (snd (flush pending_memory))) = [Poke 0x2000000 7]"
      "calls (device pending_memory) = []"
    by (simp_all add: mem_defs log_store_def Let_def)
  have dv: "\<forall>h c. \<exists>d. answer (device pending_memory) h c = Inr d"
    by (simp add: mem_defs Let_def)
  have pr: "present 4 0x5000000 ?l" "present 2 0x5000000 ?l" "present 1 0x5000000 ?l"
      "bio_len (local_data ?l) = 0"
    by (simp_all add: mem_defs)
  have A: "fst (load 0x5000000 pending_memory) = Inl IndexError
   \<and> calls (device (snd (load 0x5000000 pending_memory))) = [Poke 0x2000000 7, Peek 0x5000000]
   \<and> fst (load_half 0x5000000 pending_memory) = Inl IndexError
   \<and> calls (device (snd (load_half 0x5000000 pending_memory)))
       = [Poke 0x2000000 7, PeekByte 0x5000000, PeekByte 0x5000001]
   \<and> fst (load_byte 0x5000000 pending_memory) = Inl IndexError
   \<and> calls (device (snd (load_byte 0x5000000 pending_memory))) = [Poke 0x2000000 7, PeekByte 0x5000000]"
    using unshadowed_load_above_ceiling [of "0x5000000" "pending_memory"] np fl dv
    by simp
  have B: "load 0x5000000 ?l = (Inl StructError, ?l)
   \<and> load_half 0x5000000 ?l = (Inl StructError, ?l)
   \<and> load_byte 0x5000000 ?l = (Inl TypeError, ?l)"
    using unshadowed_load_above_ceiling [of "0x5000000" ?l] pr
    by simp
  from fl(3) A B show ?thesis by simp
qed

section \<open>Stores and the shadow (C10)\<close>

text \<open>
  C10.  For an address that \<open>seek\<close> accepts and a value that fits the access, a store
  writes the shadow exactly when all the bytes it covers are present: if they are, the
  outcome is the state with the little-endian bytes written to \<open>local_data\<close> and
  nothing else changed; if one of them is not, the store is the skip-set and run-encoder
  path and \<open>local_data\<close> is left as it was.  For an address that \<open>seek\<close> refuses,
  the store raises \<open>OverflowError\<close> or \<open>ValueError\<close> and changes nothing.
\<close>

theorem store_shadow_iff_present:
  "(0 \<le> a \<and> a < 2 ^ 63 \<longrightarrow>
      (if present 4 a m
       then (0 \<le> d \<and> d < 2 ^ 32 \<longrightarrow>
               store a d m = ok () (m\<lparr> local_data := bio_write (local_data m) (nat a) (le_bytes 4 d) \<rparr>))
       else store a d m = store_remote a d 4 m \<and> local_data (snd (store a d m)) = local_data m)
    \<and> (if present 2 a m
       then (0 \<le> d \<and> d < 2 ^ 16 \<longrightarrow>
               store_half a d m = ok () (m\<lparr> local_data := bio_write (local_data m) (nat a) (le_bytes 2 d) \<rparr>))
       else store_half a d m = store_remote a d 2 m \<and> local_data (snd (store_half a d m)) = local_data m)
    \<and> (if present 1 a m
       then (0 \<le> d \<and> d < 256 \<longrightarrow>
               store_byte a d m = ok () (m\<lparr> local_data := bio_write (local_data m) (nat a) [word_of_int d] \<rparr>))
       else store_byte a d m = store_remote a d 1 m \<and> local_data (snd (store_byte a d m)) = local_data m))
   \<and> (a < - (2 ^ 63) \<or> 2 ^ 63 \<le> a \<longrightarrow>
        store a d m = (Inl OverflowError, m) \<and> store_half a d m = (Inl OverflowError, m)
        \<and> store_byte a d m = (Inl OverflowError, m))
   \<and> (- (2 ^ 63) \<le> a \<and> a < 0 \<longrightarrow>
        store a d m = (Inl ValueError, m) \<and> store_half a d m = (Inl ValueError, m)
        \<and> store_byte a d m = (Inl ValueError, m))"
proof -
  have "store a d m = (Inl OverflowError, m) \<and> store_half a d m = (Inl OverflowError, m)
        \<and> store_byte a d m = (Inl OverflowError, m)"
    if "a < - (2 ^ 63) \<or> 2 ^ 63 \<le> a"
    using that by (auto simp: store_def store_half_def store_byte_def seek_def raise_def)
  moreover have "store a d m = (Inl ValueError, m) \<and> store_half a d m = (Inl ValueError, m)
        \<and> store_byte a d m = (Inl ValueError, m)"
    if "- (2 ^ 63) \<le> a \<and> a < 0"
    using that by (simp add: store_def store_half_def store_byte_def seek_def raise_def)
  moreover have "(if present 4 a m
       then (0 \<le> d \<and> d < 2 ^ 32 \<longrightarrow>
               store a d m = ok () (m\<lparr> local_data := bio_write (local_data m) (nat a) (le_bytes 4 d) \<rparr>))
       else store a d m = store_remote a d 4 m \<and> local_data (snd (store a d m)) = local_data m)
    \<and> (if present 2 a m
       then (0 \<le> d \<and> d < 2 ^ 16 \<longrightarrow>
               store_half a d m = ok () (m\<lparr> local_data := bio_write (local_data m) (nat a) (le_bytes 2 d) \<rparr>))
       else store_half a d m = store_remote a d 2 m \<and> local_data (snd (store_half a d m)) = local_data m)
    \<and> (if present 1 a m
       then (0 \<le> d \<and> d < 256 \<longrightarrow>
               store_byte a d m = ok () (m\<lparr> local_data := bio_write (local_data m) (nat a) [word_of_int d] \<rparr>))
       else store_byte a d m = store_remote a d 1 m \<and> local_data (snd (store_byte a d m)) = local_data m)"
    if "0 \<le> a \<and> a < 2 ^ 63"
    using that
    by (simp add: store_def store_half_def store_byte_def store_local_def pack_def bytes1_def)
  ultimately show ?thesis by blast
qed

text \<open>
  Two of the four bytes at \<open>0x2000000\<close> are present.  The word store leaves the
  shadow alone and waits in the run encoder; the half-word and byte stores, whose bytes
  are all present, write the shadow and reach neither the encoder nor the transport.  At
  \<open>2^63\<close> and at \<open>-1\<close> the stores raise.
\<close>

theorem store_shadow_iff_present_witness:
  "\<not> present 4 0x2000000 partial_memory \<and> present 2 0x2000000 partial_memory \<and> present 1 0x2000000 partial_memory
   \<and> local_data (snd (store 0x2000000 0x11 partial_memory)) = local_data partial_memory
   \<and> key (rle (snd (store 0x2000000 0x11 partial_memory))) = Some (0x2000000, 0x11, 4)
   \<and> fst (store_half 0x2000000 0x11 partial_memory) = Inr ()
   \<and> bio_read (local_data (snd (store_half 0x2000000 0x11 partial_memory))) 0x2000000 2 = [0x11, 0]
   \<and> rle (snd (store_half 0x2000000 0x11 partial_memory)) = RunEncoder
   \<and> bio_read (local_data (snd (store_byte 0x2000000 0x11 partial_memory))) 0x2000000 1 = [0x11]
   \<and> store (2 ^ 63) 0x11 partial_memory = (Inl OverflowError, partial_memory)
   \<and> store_byte (- 1) 0x11 partial_memory = (Inl ValueError, partial_memory)"
proof -
  have p: "\<not> present 4 0x2000000 partial_memory" "present 2 0x2000000 partial_memory"
      "present 1 0x2000000 partial_memory"
    by (simp_all add: mem_defs)
  have k: "key (rle (snd (store_remote 0x2000000 0x11 4 partial_memory))) = Some (0x2000000, 0x11, 4)"
    by (simp add: mem_defs Let_def)
  have r: "rle partial_memory = RunEncoder"
    by (simp add: mem_defs)
  have A: "local_data (snd (store 0x2000000 0x11 partial_memory)) = local_data partial_memory
   \<and> key (rle (snd (store 0x2000000 0x11 partial_memory))) = Some (0x2000000, 0x11, 4)
   \<and> fst (store_half 0x2000000 0x11 partial_memory) = Inr ()
   \<and> bio_read (local_data (snd (store_half 0x2000000 0x11 partial_memory))) 0x2000000 2 = [0x11, 0]
   \<and> rle (snd (store_half 0x2000000 0x11 partial_memory)) = RunEncoder
   \<and> bio_read (local_data (snd (store_byte 0x2000000 0x11 partial_memory))) 0x2000000 1 = [0x11]"
    using store_shadow_iff_present [of "0x2000000" "partial_memory" "0x11"] p k r
    by (simp add: bio_read_def bio_write_def le_bytes_def)
  have B: "store (2 ^ 63) 0x11 partial_memory = (Inl OverflowError, partial_memory)"
    using store_shadow_iff_present [of "2 ^ 63" "partial_memory" "0x11"]
    by simp
  have C: "store_byte (- 1) 0x11 partial_memory = (Inl ValueError, partial_memory)"
    using store_shadow_iff_present [of "- 1" "partial_memory" "0x11"]
    by simp
  from p A B C show ?thesis by simp
qed

section \<open>Condition codes (C4)\<close>

text \<open>
  In \<^verbatim>\<open>sim_arm_core.py\<close> every generated entry is the base factory under the
  standard predicate of its suffix: compiling fails as the base factory does, and the
  thunk runs the base thunk exactly when the predicate holds of the flags at that time.
\<close>

lemma generate_condition_codes_standard:
  "cc \<in> {''eq'', ''ne'', ''cs'', ''hs'', ''cc'', ''lo'', ''mi'', ''pl'', ''vs'', ''vc'', ''hi'', ''ls'',
          ''ge'', ''lt'', ''gt'', ''le'', ''al''} \<Longrightarrow>
   \<exists>g. generate_condition_codes fn (pre, post) tbl (pre @ cc @ post) = Some g \<and>
       (\<forall>i. case fn i of Inl e \<Rightarrow> g i = Inl e
            | Inr f \<Rightarrow> \<exists>t. g i = Inr t \<and>
                (\<forall>s. t s = (if arm_condition cc (cpsrN s) (cpsrZ s) (cpsrC s) (cpsrV s) = Some True
                            then f s else ok () s)))"
  apply (simp add: generate_condition_codes_def)
  apply (elim disjE)
  apply (simp_all add: conditional_def bind_r_def arm_condition_def split: sum.splits)
  done

text \<open>
  C4.  In \<^verbatim>\<open>sim_arm.py\<close> the entry for \<open>ls\<close> tests \<open>Z and not C\<close>.  With Z and
  C both set the standard predicate \<open>Z || !C\<close> holds, and the entry returns without
  calling the base operation, whatever the operation and the name.
\<close>

theorem direct_ls_entry:
  "\<exists>g. direct_generate_condition_codes fn (pre, post) tbl (pre @ ''ls'' @ post) = Some g \<and>
        g i (s\<lparr> cpsrZ := True, cpsrC := True \<rparr>) = ok () (s\<lparr> cpsrZ := True, cpsrC := True \<rparr>) \<and>
        arm_condition ''ls'' n True True v = Some True"
  by (simp add: direct_generate_condition_codes_def direct_conditional_def arm_condition_def)

text \<open>\<open>bls 0x200\<close> with Z = C = 1: the branch is not taken, though \<open>b 0x200\<close> takes it.\<close>

theorem direct_ls_entry_witness:
  "\<exists>g. direct_generate_condition_codes direct_op_b (''op_b'', []) Map.empty ''op_bls'' = Some g \<and>
        branch (snd (g \<lparr> address = 0x100, next_address = 0x104, op = ''bls'', args = ''0x200'', hle = None \<rparr>
           ((initial_sim ready_memory)\<lparr> cpsrZ := True, cpsrC := True \<rparr>))) = None \<and>
        branch (snd (direct_op_b \<lparr> address = 0x100, next_address = 0x104, op = ''bls'', args = ''0x200'', hle = None \<rparr>
           ((initial_sim ready_memory)\<lparr> cpsrZ := True, cpsrC := True \<rparr>))) = Some 0x200"
proof -
  obtain g where g: "direct_generate_condition_codes direct_op_b (''op_b'', []) Map.empty (''op_b'' @ ''ls'' @ []) = Some g"
    and run: "g \<lparr> address = 0x100, next_address = 0x104, op = ''bls'', args = ''0x200'', hle = None \<rparr>
           ((initial_sim ready_memory)\<lparr> cpsrZ := True, cpsrC := True \<rparr>)
         = ok () ((initial_sim ready_memory)\<lparr> cpsrZ := True, cpsrC := True \<rparr>)"
    using direct_ls_entry [where fn = direct_op_b and pre = "''op_b''" and post = "[]" and tbl = Map.empty]
    by blast
  have "branch (snd (direct_op_b \<lparr> address = 0x100, next_address = 0x104, op = ''bls'', args = ''0x200'', hle = None \<rparr>
           ((initial_sim ready_memory)\<lparr> cpsrZ := True, cpsrC := True \<rparr>))) = Some 0x200"
    by (simp add: direct_op_b_def int0_def py_int0_def unsigned_literal_def digit_val_def is_space_def ok_def)
  with g run show ?thesis
    by (simp add: initial_sim_def reset_def ok_def)
qed

section \<open>Breakpoints, HLE and hooks (C6)\<close>

text \<open>
  C6.  A \<open>nop\<close> at \<open>0x100\<close> carries an HLE tag, and a hook for \<open>0x100\<close> writes 42 to
  \<open>r1\<close>; the device answers every call with 7.  Stepped once without a breakpoint, the
  handler is called on the device and its answer is written to \<open>r0\<close>, and the hook
  runs.  Stepped once with the breakpoint at the next address \<open>0x104\<close>, \<open>step\<close>
  returns from inside the \<open>try\<close> block: the transport sees no call, \<open>r0\<close> and \<open>r1\<close>
  stay 0, and the program counter is past the instruction.
\<close>

theorem breakpoint_skips_hle_and_hook:
  "(let ev = \<lparr> hooks = [0x100 \<mapsto> (\<lambda>s. ok () (s\<lparr> regs := (regs s)[1 := 42] \<rparr>))],
               disasm = d, attrs = sim_attrs \<rparr>;
        m = (SimARMMemory \<lparr> calls = [], answer = (\<lambda>h c. Inr 7), answer_bytes = (\<lambda>h c. Inr []) \<rparr> None)
              \<lparr> hle_symbols := Some [''hle_00000100'' \<mapsto> 0x2000] \<rparr>;
        stopped = step ev 1 (Some 0x104) (poised m tagged_nop);
        free = step ev 1 None (poised m tagged_nop)
    in fst stopped = Inr () \<and> regs (snd stopped) ! 15 = 0x104
       \<and> calls (device (memory (snd stopped))) = []
       \<and> regs (snd stopped) ! 0 = 0 \<and> regs (snd stopped) ! 1 = 0
       \<and> fst free = Inr () \<and> regs (snd free) ! 15 = 0x104
       \<and> calls (device (memory (snd free))) = [ConsoleDiscard, Blx 0x2000 0, ConsoleRead]
       \<and> regs (snd free) ! 0 = 7 \<and> regs (snd free) ! 1 = 42)"
  by (simp add: step_defs attrs_nop op_nop_def hle_invoke_def dev_int_def dev_bytes_def lookup_def Let_def)

section \<open>The carry of \<open>mvns\<close> (C8)\<close>

lemma dstpc_cpsrC: "dstpc dst = Inr dF \<Longrightarrow> cpsrC (dF r s) = cpsrC s"
  by (auto simp: dstpc_def bind_r_def split: if_splits sum.splits)

text \<open>
  C8.  The thunk of \<open>op_mvns\<close> assigns the shifter's carry to the attribute \<open>csprC\<close>;
  the carry flag \<open>cpsrC\<close> is the same after the thunk as before it, for every
  instruction the factory accepts and every state.
\<close>

theorem mvns_keeps_cpsrC:
  "op_mvns i = Inr f \<Longrightarrow> cpsrC (snd (f s)) = cpsrC s"
  by (auto simp: op_mvns_def bind_r_def Let_def dstpc_cpsrC split: sum.splits prod.splits)

text \<open>
  \<open>mvns r1, r0, lsr #1\<close> with \<open>r0 = 1\<close> and C clear: the shifter yields \<open>(0, 1)\<close>,
  \<open>r1\<close> becomes \<open>0xffffffff\<close>, N is set, and C is still clear.
\<close>

theorem mvns_keeps_cpsrC_witness:
  "\<exists>f sF. op_mvns \<lparr> address = 0, next_address = 4, op = ''mvns'', args = ''r1, r0, lsr #1'', hle = None \<rparr> = Inr f \<and>
     shifter ''r0, lsr #1'' = Inr sF \<and>
     sF ((initial_sim ready_memory)\<lparr> regs := (regs (initial_sim ready_memory))[0 := 1] \<rparr>) = (0, 1) \<and>
     (let s' = snd (f ((initial_sim ready_memory)\<lparr> regs := (regs (initial_sim ready_memory))[0 := 1] \<rparr>))
      in regs s' ! 1 = 0xffffffff \<and> \<not> cpsrC s' \<and> csprC s' = Some 1 \<and> cpsrN s' \<and> \<not> cpsrZ s')"
proof -
  obtain f sF where f: "op_mvns \<lparr> address = 0, next_address = 4, op = ''mvns'', args = ''r1, r0, lsr #1'', hle = None \<rparr> = Inr f"
    and sF: "shifter ''r0, lsr #1'' = Inr sF"
       "sF ((initial_sim ready_memory)\<lparr> regs := (regs (initial_sim ready_memory))[0 := 1] \<rparr>) = (0, 1)"
    and rest: "(let s' = snd (f ((initial_sim ready_memory)\<lparr> regs := (regs (initial_sim ready_memory))[0 := 1] \<rparr>))
      in regs s' ! 1 = 0xffffffff \<and> csprC s' = Some 1 \<and> cpsrN s' \<and> \<not> cpsrZ s')"
    by (simp add: op_mvns_def lsr_def parse_defs initial_sim_def reset_def)
  have "cpsrC (snd (f ((initial_sim ready_memory)\<lparr> regs := (regs (initial_sim ready_memory))[0 := 1] \<rparr>)))
        = cpsrC ((initial_sim ready_memory)\<lparr> regs := (regs (initial_sim ready_memory))[0 := 1] \<rparr>)"
    using f by (rule mvns_keeps_cpsrC)
  then have "\<not> cpsrC (snd (f ((initial_sim ready_memory)\<lparr> regs := (regs (initial_sim ready_memory))[0 := 1] \<rparr>)))"
    by (simp add: initial_sim_def reset_def)
  with f sF rest show ?thesis
    by (auto simp: Let_def)
qed

text \<open>The sibling \<open>op_movs\<close> sets C from the shifter on the same operands.\<close>

lemma movs_sets_carry:
  "\<exists>f. op_movs \<lparr> address = 0, next_address = 4, op = ''movs'', args = ''r1, r0, lsr #1'', hle = None \<rparr> = Inr f \<and>
     cpsrC (snd (f ((initial_sim m)\<lparr> regs := (regs (initial_sim m))[0 := 1] \<rparr>)))"
  by (simp add: op_movs_def lsr_def parse_defs initial_sim_def reset_def)

section \<open>Exceptions in a step (C9)\<close>

text \<open>
  C9, as stated, fails.  A hook that raises, and an HLE call on which the transport
  fails, both end \<open>step\<close> with the exception and the program counter at \<open>0x104\<close>, the
  address after the instruction at \<open>0x100\<close>: the handler that restores the program
  counter encloses the opfunc only.
\<close>

theorem hook_and_hle_exceptions_keep_pc:
  "fst (step raising_hook_env 1 None (poised ready_memory plain_nop)) = Inl (External ''hook'')
   \<and> regs (snd (step raising_hook_env 1 None (poised ready_memory plain_nop))) ! 15 = 0x104
   \<and> fst (step plain_env 1 None (poised failing_hle_memory tagged_nop)) = Inl (External ''transport'')
   \<and> regs (snd (step plain_env 1 None (poised failing_hle_memory tagged_nop))) ! 15 = 0x104"
  by (simp add: step_defs attrs_nop op_nop_def hle_invoke_def dev_int_def dev_bytes_def lookup_def Let_def)

text \<open>
  C9, amended.  Let one iteration fetch the instruction \<open>i\<close>, leaving the state
  \<open>sf\<close>.  If \<open>getattr\<close> does not find the \<open>op_\<close> method, if the factory raises,
  or if the opfunc raises, the iteration raises the same exception in the state of that
  raise with the program counter set to \<open>address i\<close> and nothing else touched: the
  memory proxy, and with it the run encoder, is as the opfunc left it.  If the opfunc
  returns and the breakpoint is not reached, the program counter is
  \<open>_branch or next_address\<close>, and an exception of the HLE invocation or of the hook
  (called without an HLE tag, or after the HLE invocation has returned and its result is
  in \<open>r0\<close>) leaves the iteration as it is raised: the program counter stays there.
\<close>

theorem try_block_exception_restores_pc:
  assumes "with_memory (fetch (disasm ev) (regs s ! 15) (thumb s))
             (s\<lparr> step_count := step_count s + 1 \<rparr>) = (Inr i, sf)"
  shows "(attrs ev (''op_'' @ hd (py_splitn ''.'' 1 (op i))) = None \<longrightarrow>
            step_once ev bp s
              = (Inl AttributeError,
                 (entering i sf)\<lparr> regs := (regs (entering i sf))[15 := address i] \<rparr>))
       \<and> (attrs ev (''op_'' @ hd (py_splitn ''.'' 1 (op i))) = Some fn \<and> fn i = Inl e \<longrightarrow>
            step_once ev bp s
              = (Inl e, (entering i sf)\<lparr> regs := (regs (entering i sf))[15 := address i] \<rparr>))
       \<and> (attrs ev (''op_'' @ hd (py_splitn ''.'' 1 (op i))) = Some fn \<and> fn i = Inr opfunc
            \<and> opfunc (entering i sf) = (Inl e, sx) \<longrightarrow>
            step_once ev bp s = (Inl e, sx\<lparr> regs := (regs sx)[15 := address i] \<rparr>))
       \<and> (attrs ev (''op_'' @ hd (py_splitn ''.'' 1 (op i))) = Some fn \<and> fn i = Inr opfunc
            \<and> opfunc (entering i sf) = (Inr (), sx) \<and> Some (branch_or_next i sx) \<noteq> bp \<longrightarrow>
            (hle i = Some name \<and> name \<noteq> []
               \<and> hle_invoke i (regs sx ! 0) (memory sx) = (Inl e, mx) \<longrightarrow>
               step_once ev bp s
                 = (Inl e, sx\<lparr> memory := mx, regs := (regs sx)[15 := branch_or_next i sx] \<rparr>))
            \<and> ((hle i = None \<or> hle i = Some []) \<and> hooks ev (regs s ! 15) = Some h
               \<and> h (sx\<lparr> regs := (regs sx)[15 := branch_or_next i sx] \<rparr>) = (Inl e, sy) \<longrightarrow>
               step_once ev bp s = (Inl e, sy))
            \<and> (hle i = Some name \<and> name \<noteq> []
               \<and> hle_invoke i (regs sx ! 0) (memory sx) = (Inr rv, mx)
               \<and> hooks ev (regs s ! 15) = Some h
               \<and> h (sx\<lparr> memory := mx, regs := ((regs sx)[15 := branch_or_next i sx])[0 := rv] \<rparr>)
                   = (Inl e, sy) \<longrightarrow>
               step_once ev bp s = (Inl e, sy)))"
  using assms
  by (auto simp add: step_once_def step_try_def Let_def from_result_def with_memory_def
        raise_def ok_def)

text \<open>
  With a run pending for \<open>0x2000000\<close>: the unknown mnemonic \<open>frob\<close> raises
  \<open>AttributeError\<close>, \<open>b zzz\<close> raises \<open>ValueError\<close> when it is compiled, and
  \<open>ldr r0, [r1]\<close> raises on shadow bytes that are present and unwritten; each time the
  program counter is back at \<open>0x100\<close> and the run is still pending.  A failing HLE
  call, a raising hook, and a raising hook after an HLE call that put 5 in \<open>r0\<close>
  leave the program counter at \<open>0x104\<close>.
\<close>

theorem try_block_exception_restores_pc_witness:
  "fst (step_once plain_env None (poised pending_ready unknown_op)) = Inl AttributeError
   \<and> regs (snd (step_once plain_env None (poised pending_ready unknown_op))) ! 15 = 0x100
   \<and> rle (memory (snd (step_once plain_env None (poised pending_ready unknown_op))))
       = \<lparr> count = 1, key = Some (0x2000000, 7, 4) \<rparr>
   \<and> calls (device (memory (snd (step_once plain_env None (poised pending_ready unknown_op))))) = []
   \<and> fst (step_once plain_env None (poised pending_ready bad_branch)) = Inl ValueError
   \<and> regs (snd (step_once plain_env None (poised pending_ready bad_branch))) ! 15 = 0x100
   \<and> rle (memory (snd (step_once plain_env None (poised pending_ready bad_branch))))
       = \<lparr> count = 1, key = Some (0x2000000, 7, 4) \<rparr>
   \<and> fst (step_once plain_env None
          ((poised unwritten_pending ldr_r0_r1)
             \<lparr> regs := (regs (poised unwritten_pending ldr_r0_r1))[1 := 0x3000000] \<rparr>))
       = Inl StructError
   \<and> regs (snd (step_once plain_env None
          ((poised unwritten_pending ldr_r0_r1)
             \<lparr> regs := (regs (poised unwritten_pending ldr_r0_r1))[1 := 0x3000000] \<rparr>))) ! 15
       = 0x100
   \<and> rle (memory (snd (step_once plain_env None
          ((poised unwritten_pending ldr_r0_r1)
             \<lparr> regs := (regs (poised unwritten_pending ldr_r0_r1))[1 := 0x3000000] \<rparr>))))
       = \<lparr> count = 1, key = Some (0x2000000, 7, 4) \<rparr>
   \<and> fst (step_once plain_env None (poised failing_hle_memory tagged_nop)) = Inl (External ''transport'')
   \<and> regs (snd (step_once plain_env None (poised failing_hle_memory tagged_nop))) ! 15 = 0x104
   \<and> fst (step_once raising_hook_env None (poised ready_memory plain_nop)) = Inl (External ''hook'')
   \<and> regs (snd (step_once raising_hook_env None (poised ready_memory plain_nop))) ! 15 = 0x104
   \<and> fst (step_once raising_hook_env None (poised answering_hle_memory tagged_nop))
       = Inl (External ''hook'')
   \<and> regs (snd (step_once raising_hook_env None (poised answering_hle_memory tagged_nop))) ! 15 = 0x104
   \<and> regs (snd (step_once raising_hook_env None (poised answering_hle_memory tagged_nop))) ! 0 = 5
   \<and> calls (device (memory (snd (step_once raising_hook_env None (poised answering_hle_memory tagged_nop)))))
       = [ConsoleDiscard, Blx 0x2000 0, ConsoleRead]"
proof -
  note T = try_block_exception_restores_pc
  let ?s1 = "poised pending_ready unknown_op"
  let ?x1 = "(entering unknown_op (?s1\<lparr> step_count := 1 \<rparr>))
               \<lparr> regs := (regs (entering unknown_op (?s1\<lparr> step_count := 1 \<rparr>)))[15 := address unknown_op] \<rparr>"
  have a1: "step_once plain_env None ?s1 = (Inl AttributeError, ?x1)"
    using T [where ev = plain_env and bp = None and s = ?s1 and i = unknown_op,
        OF poised_fetch, THEN conjunct1]
    by (simp add: attrs_frob)
  have b1: "regs ?x1 ! 15 = 0x100"
      "rle (memory ?x1) = \<lparr> count = 1, key = Some (0x2000000, 7, 4) \<rparr>"
      "calls (device (memory ?x1)) = []"
    by (simp_all add: initial_sim_def reset_def hle_init_def ok_def mem_defs Let_def)
  let ?s2 = "poised pending_ready bad_branch"
  let ?x2 = "(entering bad_branch (?s2\<lparr> step_count := 1 \<rparr>))
               \<lparr> regs := (regs (entering bad_branch (?s2\<lparr> step_count := 1 \<rparr>)))[15 := address bad_branch] \<rparr>"
  have f2: "op_b bad_branch = Inl ValueError"
    by (simp add: op_b_def parse_defs)
  have a2: "step_once plain_env None ?s2 = (Inl ValueError, ?x2)"
    using T [where ev = plain_env and bp = None and s = ?s2 and i = bad_branch
          and fn = op_b and e = ValueError,
        OF poised_fetch, THEN conjunct2, THEN conjunct1] f2
    by (simp add: attrs_b)
  have b2: "regs ?x2 ! 15 = 0x100"
      "rle (memory ?x2) = \<lparr> count = 1, key = Some (0x2000000, 7, 4) \<rparr>"
    by (simp_all add: initial_sim_def reset_def hle_init_def ok_def mem_defs Let_def)
  let ?s3 = "(poised unwritten_pending ldr_r0_r1)
               \<lparr> regs := (regs (poised unwritten_pending ldr_r0_r1))[1 := 0x3000000] \<rparr>"
  let ?e3 = "entering ldr_r0_r1 (?s3\<lparr> step_count := 1 \<rparr>)"
  let ?x3 = "?e3\<lparr> regs := (regs ?e3)[15 := address ldr_r0_r1] \<rparr>"
  have p3: "with_memory (fetch (disasm plain_env) (regs ?s3 ! 15) (thumb ?s3))
              (?s3\<lparr> step_count := step_count ?s3 + 1 \<rparr>)
            = (Inr ldr_r0_r1, ?s3\<lparr> step_count := 1 \<rparr>)"
    by (simp add: with_memory_def fetch_def icache_key_def initial_sim_def reset_def ok_def)
  have "\<exists>f. op_ldr ldr_r0_r1 = Inr f \<and> f ?e3 = (Inl StructError, ?e3)"
    by (simp add: op_ldr_def parse_defs reladdr_def py_strip_def with_memory_def mem_defs
          initial_sim_def reset_def hle_init_def ok_def Let_def)
  then obtain f where f3: "op_ldr ldr_r0_r1 = Inr f" "f ?e3 = (Inl StructError, ?e3)"
    by blast
  have a3: "step_once plain_env None ?s3 = (Inl StructError, ?x3)"
    using T [where ev = plain_env and bp = None and s = ?s3 and i = ldr_r0_r1
          and fn = op_ldr and opfunc = f and e = StructError and sx = ?e3,
        OF p3, THEN conjunct2, THEN conjunct2, THEN conjunct1] f3
    by (simp add: attrs_ldr)
  have b3: "regs ?x3 ! 15 = 0x100"
      "rle (memory ?x3) = \<lparr> count = 1, key = Some (0x2000000, 7, 4) \<rparr>"
    by (simp_all add: initial_sim_def reset_def hle_init_def ok_def mem_defs Let_def)
  let ?s4 = "poised failing_hle_memory tagged_nop"
  let ?e4 = "entering tagged_nop (?s4\<lparr> step_count := 1 \<rparr>)"
  let ?m4 = "snd (hle_invoke tagged_nop (regs ?e4 ! 0) (memory ?e4))"
  let ?x4 = "?e4\<lparr> memory := ?m4, regs := (regs ?e4)[15 := branch_or_next tagged_nop ?e4] \<rparr>"
  have h4: "hle_invoke tagged_nop (regs ?e4 ! 0) (memory ?e4) = (Inl (External ''transport''), ?m4)"
    by (simp add: hle_invoke_def dev_int_def SimARMMemory_def initial_sim_def reset_def)
  have a4: "step_once plain_env None ?s4 = (Inl (External ''transport''), ?x4)"
    using T [where ev = plain_env and bp = None and s = ?s4 and i = tagged_nop
          and fn = op_nop and opfunc = "\<lambda>s. ok () s" and sx = ?e4
          and name = "''hle_00000100''" and e = "External ''transport''" and mx = ?m4
          and h = "\<lambda>s. ok () s" and sy = ?e4 and rv = 0,
        OF poised_fetch, THEN conjunct2, THEN conjunct2, THEN conjunct2] h4
    by (simp add: attrs_nop op_nop_def ok_def)
  have b4: "regs ?x4 ! 15 = 0x104"
    by (simp add: initial_sim_def reset_def)
  let ?s5 = "poised ready_memory plain_nop"
  let ?e5 = "entering plain_nop (?s5\<lparr> step_count := 1 \<rparr>)"
  let ?x5 = "?e5\<lparr> regs := (regs ?e5)[15 := branch_or_next plain_nop ?e5] \<rparr>"
  have a5: "step_once raising_hook_env None ?s5 = (Inl (External ''hook''), ?x5)"
    using T [where ev = raising_hook_env and bp = None and s = ?s5 and i = plain_nop
          and fn = op_nop and opfunc = "\<lambda>s. ok () s" and sx = ?e5
          and name = "[]" and e = "External ''hook''" and mx = "memory ?e5"
          and h = "\<lambda>s. raise (External ''hook'') s" and sy = ?x5 and rv = 0,
        OF poised_fetch, THEN conjunct2, THEN conjunct2, THEN conjunct2]
    by (simp add: attrs_nop op_nop_def ok_def raise_def initial_sim_def reset_def)
  have b5: "regs ?x5 ! 15 = 0x104"
    by (simp add: initial_sim_def reset_def)
  let ?s6 = "poised answering_hle_memory tagged_nop"
  let ?e6 = "entering tagged_nop (?s6\<lparr> step_count := 1 \<rparr>)"
  let ?m6 = "snd (hle_invoke tagged_nop (regs ?e6 ! 0) (memory ?e6))"
  let ?x6 = "?e6\<lparr> memory := ?m6, regs := ((regs ?e6)[15 := branch_or_next tagged_nop ?e6])[0 := 5] \<rparr>"
  have h6: "hle_invoke tagged_nop (regs ?e6 ! 0) (memory ?e6) = (Inr 5, ?m6)"
      "calls (device ?m6) = [ConsoleDiscard, Blx 0x2000 0, ConsoleRead]"
    by (simp_all add: hle_invoke_def dev_int_def dev_bytes_def lookup_def SimARMMemory_def
          initial_sim_def reset_def hle_init_def ok_def)
  have a6: "step_once raising_hook_env None ?s6 = (Inl (External ''hook''), ?x6)"
    using T [where ev = raising_hook_env and bp = None and s = ?s6 and i = tagged_nop
          and fn = op_nop and opfunc = "\<lambda>s. ok () s" and sx = ?e6
          and name = "''hle_00000100''" and e = "External ''hook''" and mx = ?m6
          and h = "\<lambda>s. raise (External ''hook'') s" and sy = ?x6 and rv = 5,
        OF poised_fetch, THEN conjunct2, THEN conjunct2, THEN conjunct2] h6(1)
    by (simp add: attrs_nop op_nop_def ok_def raise_def initial_sim_def reset_def)
  have b6: "regs ?x6 ! 15 = 0x104" "regs ?x6 ! 0 = 5" "calls (device (memory ?x6)) = calls (device ?m6)"
    by (simp_all add: initial_sim_def reset_def)
  show ?thesis
    unfolding a1 a2 a3 a4 a5 a6
    using b1 b2 b3 b4 b5 b6 h6(2)
    by (simp only: fst_conv snd_conv simp_thms)
qed

text \<open>An exception in the first iteration is the outcome of \<open>step\<close>.\<close>

lemma step_raises:
  assumes "step_once ev bp s = (Inl e, s')" and "0 < repeat"
  shows "step ev repeat bp s = (Inl e, s')"
proof -
  obtain k where "nat repeat = Suc k"
    using assms(2) by (cases "nat repeat") simp_all
  then show ?thesis
    using assms(1) by (simp add: step_def)
qed

end
